theory Spec2Isabelle
  imports Complex_Main "HOL-Library.AList"
begin

section \<open>Python values, exceptions and the outside world\<close>

text \<open>
  A numeric scalar, as Python and numpy have it: a boolean (Python's \<open>bool\<close> is an
  \<open>int\<close>), a finite number given by its exact value, an infinity, or NaN. Whether a
  finite number is held as an integer or as a float is not part of the value: it is
  part of the arithmetic, which the library decides (see \<open>pandas_lib\<close> below).
\<close>

datatype number =
    NBool bool
  | Finite rat
  | PosInf
  | NegInf
  | NaN

text \<open>The comparisons \<open>x == 0\<close> and \<open>x > 0\<close>; both are false of NaN.\<close>

definition is_zero :: "number \<Rightarrow> bool" where
  "is_zero n = (case n of NBool b \<Rightarrow> \<not> b | Finite q \<Rightarrow> q = 0 | _ \<Rightarrow> False)"

definition positive :: "number \<Rightarrow> bool" where
  "positive n = (case n of NBool b \<Rightarrow> b | Finite q \<Rightarrow> 0 < q | PosInf \<Rightarrow> True | _ \<Rightarrow> False)"

text \<open>The exact value of a number that has one: \<open>True\<close> is 1 and \<open>False\<close> is 0.\<close>

definition finite_value :: "number \<Rightarrow> rat option" where
  "finite_value n =
     (case n of NBool b \<Rightarrow> Some (if b then 1 else 0) | Finite q \<Rightarrow> Some q | _ \<Rightarrow> None)"

text \<open>
  A parsed JSON payload is a Python value. A dictionary is an association list read
  with \<open>map_of\<close>. \<open>PNone\<close> is both Python's \<open>None\<close> and the missing value of a
  table cell that holds no number.
\<close>

datatype pyval =
    PNone
  | PNum number
  | PStr string
  | PList "pyval list"
  | PDict "(string \<times> pyval) list"

text \<open>
  The subclasses of \<open>requests.exceptions.RequestException\<close> that
  \<open>requests.get\<close>, \<open>raise_for_status\<close> and \<open>response.json\<close> raise.
\<close>

datatype request_exception =
    ConnectionError
  | Timeout
  | HTTPError nat
  | JSONDecodeError

datatype py_exception =
    ValueError string
  | AttributeError
  | TypeError
  | KeyError string
  | MergeError
  | ZeroDivisionError
  | OSError string

text \<open>The lines the program prints, one constructor per \<open>print\<close> call.\<close>

datatype message =
    Fetched string nat               \<comment> \<open>Fetched <feed> - <n> stations\<close>
  | ErrorFetching string request_exception  \<comment> \<open>Error fetching <feed>: <e>\<close>
  | MissingStationData               \<comment> \<open>Warning: Missing station data\<close>
  | SavedCombined string             \<comment> \<open>Saved combined data to <path>\<close>

record table =
  columns :: "string list"
  rows :: "(string \<times> pyval) list list"

datatype file_content = JsonFile pyval | CsvFile table

text \<open>
  Everything outside the process: what the server answers for a URL (the outcome of
  \<open>requests.get(url, timeout=10)\<close>, \<open>raise_for_status()\<close> and \<open>json()\<close> together),
  the clock read by \<open>datetime.now()\<close>, which paths can be written, and the traces the
  program leaves: the requests issued (URL and timeout), the files written and the
  lines printed.
\<close>

record world =
  transport :: "string \<Rightarrow> request_exception + pyval"
  clock :: "nat \<Rightarrow> string"
  ticks :: nat
  writable :: "string \<Rightarrow> bool"
  requests_log :: "(string \<times> nat) list"
  files :: "(string \<times> file_content) list"
  stdout :: "message list"

definition now_strftime :: "world \<Rightarrow> string \<times> world" where
  "now_strftime w = (clock w (ticks w), w\<lparr>ticks := Suc (ticks w)\<rparr>)"

definition print :: "message \<Rightarrow> world \<Rightarrow> world" where
  "print m w = w\<lparr>stdout := stdout w @ [m]\<rparr>"

definition write_file :: "string \<Rightarrow> file_content \<Rightarrow> world \<Rightarrow> py_exception + world" where
  "write_file path c w =
     (if writable w path then Inr (w\<lparr>files := files w @ [(path, c)]\<rparr>)
      else Inl (OSError path))"

definition requests_get :: "string \<Rightarrow> nat \<Rightarrow> world \<Rightarrow> (request_exception + pyval) \<times> world" where
  "requests_get url tmo w =
     (transport w url, w\<lparr>requests_log := requests_log w @ [(url, tmo)]\<rparr>)"

section \<open>config.py\<close>

definition BIXI_GBFS_BASE_URL :: string where
  "BIXI_GBFS_BASE_URL = ''https://gbfs.velobixi.com/gbfs''"

definition BIXI_FEEDS :: "(string \<times> string) list" where
  "BIXI_FEEDS =
     [(''station_information'', ''/en/station_information.json''),
      (''station_status'', ''/en/station_status.json''),
      (''system_information'', ''/en/system_information.json''),
      (''system_alerts'', ''/en/system_alerts.json''),
      (''vehicle_types'', ''/en/vehicle_types.json'')]"

definition DATA_DIR :: string where
  "DATA_DIR = ''data''"

section \<open>Python operations used by data_fetch.py\<close>

text \<open>\<open>d.get(key, default)\<close>: only a dictionary has the method.\<close>

definition py_get :: "pyval \<Rightarrow> string \<Rightarrow> pyval \<Rightarrow> py_exception + pyval" where
  "py_get d k dflt =
     (case d of
        PDict kvs \<Rightarrow> (case map_of kvs k of None \<Rightarrow> Inr dflt | Some v \<Rightarrow> Inr v)
      | _ \<Rightarrow> Inl AttributeError)"

definition py_len :: "pyval \<Rightarrow> py_exception + nat" where
  "py_len v =
     (case v of
        PStr s \<Rightarrow> Inr (length s)
      | PList xs \<Rightarrow> Inr (length xs)
      | PDict kvs \<Rightarrow> Inr (length kvs)
      | _ \<Rightarrow> Inl TypeError)"

definition truthy :: "pyval \<Rightarrow> bool" where
  "truthy v =
     (case v of
        PNone \<Rightarrow> False
      | PNum n \<Rightarrow> \<not> is_zero n
      | PStr s \<Rightarrow> s \<noteq> []
      | PList xs \<Rightarrow> xs \<noteq> []
      | PDict kvs \<Rightarrow> kvs \<noteq> [])"

fun is_substring :: "string \<Rightarrow> string \<Rightarrow> bool" where
  "is_substring k [] = (k = [])"
| "is_substring k (c # cs) = (take (length k) (c # cs) = k \<or> is_substring k cs)"

text \<open>\<open>key in v\<close> for a string key.\<close>

definition py_in :: "string \<Rightarrow> pyval \<Rightarrow> py_exception + bool" where
  "py_in k v =
     (case v of
        PDict kvs \<Rightarrow> Inr (k \<in> set (map fst kvs))
      | PList xs \<Rightarrow> Inr (PStr k \<in> set xs)
      | PStr s \<Rightarrow> Inr (is_substring k s)
      | _ \<Rightarrow> Inl TypeError)"

text \<open>\<open>v[key]\<close> for a string key.\<close>

definition py_item :: "pyval \<Rightarrow> string \<Rightarrow> py_exception + pyval" where
  "py_item v k =
     (case v of
        PDict kvs \<Rightarrow> (case map_of kvs k of None \<Rightarrow> Inl (KeyError k) | Some x \<Rightarrow> Inr x)
      | _ \<Rightarrow> Inl TypeError)"

section \<open>BIXIDataFetcher.fetch_feed\<close>

text \<open>
  The length printed after a successful fetch:
  \<open>len(data.get('data', {}).get('stations', []))\<close>.
\<close>

definition stations_count :: "pyval \<Rightarrow> py_exception + nat" where
  "stations_count data =
     (case py_get data ''data'' (PDict []) of
        Inl e \<Rightarrow> Inl e
      | Inr d \<Rightarrow>
          (case py_get d ''stations'' (PList []) of
             Inl e \<Rightarrow> Inl e
           | Inr s \<Rightarrow> py_len s))"

text \<open>
  The result is the pair of what the call gives back (\<open>Inl\<close> an exception that
  leaves the function, \<open>Inr\<close> the returned value) and the world after it. Only a
  \<open>RequestException\<close> is caught; a failed write and a payload without the expected
  methods raise past the handler.
\<close>

definition fetch_feed :: "string \<Rightarrow> world \<Rightarrow> (py_exception + pyval) \<times> world" where
  "fetch_feed feed_name w =
     (case map_of BIXI_FEEDS feed_name of
        None \<Rightarrow> (Inl (ValueError (''Unknown feed: '' @ feed_name)), w)
      | Some p \<Rightarrow>
          (let url = BIXI_GBFS_BASE_URL @ p;
               (resp, w1) = requests_get url 10 w
           in case resp of
                Inl e \<Rightarrow> (Inr PNone, print (ErrorFetching feed_name e) w1)
              | Inr data \<Rightarrow>
                  (let (timestamp, w2) = now_strftime w1;
                       filename = DATA_DIR @ ''/'' @ feed_name @ ''_'' @ timestamp @ ''.json''
                   in case write_file filename (JsonFile data) w2 of
                        Inl e \<Rightarrow> (Inl e, w2)
                      | Inr w3 \<Rightarrow>
                          (case stations_count data of
                             Inl e \<Rightarrow> (Inl e, w3)
                           | Inr n \<Rightarrow> (Inr data, print (Fetched feed_name n) w3)))))"

section \<open>Tables\<close>

text \<open>
  A \<open>pandas.DataFrame\<close> built from records: the column labels in order, and one
  dictionary per row. A column the row's dictionary lacks reads as the missing value.

  What the source leaves to pandas, numpy and the dtypes that the columns of a run
  happen to get is passed in, and every theorem below holds for every choice of it:
  \<^item> \<open>parse_number\<close>: how \<open>to_numeric\<close> reads a string (\<open>None\<close>: it does not parse);
  \<^item> \<open>stored_as\<close>: the value a parsed number has in the dtype of its column (by
    column label: an integer beside a float becomes a float, a boolean beside a number
    becomes 0 or 1, in a column of booleans it stays a boolean);
  \<^item> \<open>series_plus\<close>: the sum of two cells of the count columns (it wraps around in
    int64, is a logical or on two boolean columns, and rounds and overflows in float64);
  \<^item> \<open>scalar_div\<close>: the quotient \<open>x / y\<close> of two row values with \<open>y\<close> not zero
    (rounded to float64; NaN for infinity by infinity);
  \<^item> \<open>keys_compatible\<close>: the check of \<open>merge\<close> that the two key columns have
    dtypes it can compare (a column of integers against one of strings is refused);
  \<^item> \<open>frame_of_other\<close>: what the \<open>DataFrame\<close> constructor makes of a value that is
    not a list of records.
\<close>

record pandas_lib =
  parse_number :: "string \<Rightarrow> number option"
  stored_as :: "string \<Rightarrow> number \<Rightarrow> number"
  series_plus :: "number \<Rightarrow> number \<Rightarrow> number"
  scalar_div :: "number \<Rightarrow> number \<Rightarrow> number"
  keys_compatible :: "pyval list \<Rightarrow> pyval list \<Rightarrow> bool"
  frame_of_other :: "pyval \<Rightarrow> py_exception + table"

definition empty_frame :: table where
  "empty_frame = \<lparr>columns = [], rows = []\<rparr>"

text \<open>\<open>DataFrame.empty\<close>: some axis has length 0.\<close>

definition frame_empty :: "table \<Rightarrow> bool" where
  "frame_empty t = (columns t = [] \<or> rows t = [])"

definition cell_of :: "(string \<times> pyval) list \<Rightarrow> string \<Rightarrow> pyval" where
  "cell_of r c = (case map_of r c of None \<Rightarrow> PNone | Some v \<Rightarrow> v)"

text \<open>\<open>df[c]\<close>: the column as a series, one value per row.\<close>

definition column :: "table \<Rightarrow> string \<Rightarrow> pyval list" where
  "column t c = map (\<lambda>r. cell_of r c) (rows t)"

text \<open>\<open>df[c] = series\<close>: the label is appended when it is new.\<close>

definition set_column :: "string \<Rightarrow> pyval list \<Rightarrow> table \<Rightarrow> table" where
  "set_column c vals t =
     \<lparr>columns = (if c \<in> set (columns t) then columns t else columns t @ [c]),
      rows = map2 (\<lambda>r v. AList.update c v r) (rows t) vals\<rparr>"

fun is_dict :: "pyval \<Rightarrow> bool" where
  "is_dict (PDict kvs) = True"
| "is_dict _ = False"

fun dict_items :: "pyval \<Rightarrow> (string \<times> pyval) list" where
  "dict_items (PDict kvs) = kvs"
| "dict_items _ = []"

text \<open>\<open>pd.DataFrame(records)\<close>: the labels are the keys in order of first appearance.\<close>

definition DataFrame :: "pandas_lib \<Rightarrow> pyval \<Rightarrow> py_exception + table" where
  "DataFrame lib v =
     (case v of
        PList xs \<Rightarrow>
          (if list_all is_dict xs
           then Inr \<lparr>columns = rev (remdups (rev (concat (map (map fst \<circ> dict_items) xs)))),
                     rows = map dict_items xs\<rparr>
           else frame_of_other lib v)
      | _ \<Rightarrow> frame_of_other lib v)"

text \<open>
  \<open>left.merge(right, on=on, how='inner', suffixes=(ls, rs))\<close>. A missing key
  column is a \<open>KeyError\<close>; key columns whose dtypes the library refuses to compare
  are a \<open>ValueError\<close>; a label other than the key that both frames carry gets the
  suffix of its side; suffixes that make two labels of one side equal are a
  \<open>MergeError\<close>. The result has one row for every pair of a left and a right row
  with equal keys. Keys are compared by value.
\<close>

definition suffixed :: "string list \<Rightarrow> string \<Rightarrow> string \<Rightarrow> string" where
  "suffixed overlap sfx c = (if c \<in> set overlap then c @ sfx else c)"

definition join_rows ::
  "string list \<Rightarrow> string \<Rightarrow> string \<times> string \<Rightarrow>
   (string \<times> pyval) list \<Rightarrow> (string \<times> pyval) list \<Rightarrow> (string \<times> pyval) list" where
  "join_rows overlap on sfx l r =
     map (\<lambda>(k, v). (suffixed overlap (fst sfx) k, v)) l @
     map (\<lambda>(k, v). (suffixed overlap (snd sfx) k, v)) (filter (\<lambda>kv. fst kv \<noteq> on) r)"

definition merge_inner ::
  "pandas_lib \<Rightarrow> table \<Rightarrow> table \<Rightarrow> string \<Rightarrow> string \<times> string \<Rightarrow> py_exception + table" where
  "merge_inner lib left right on sfx =
     (if on \<notin> set (columns left) \<or> on \<notin> set (columns right) then Inl (KeyError on)
      else if \<not> keys_compatible lib (column left on) (column right on)
      then Inl (ValueError (''You are trying to merge on incompatible columns for key '' @ on))
      else
        (let overlap = filter (\<lambda>c. c \<noteq> on \<and> c \<in> set (columns right)) (columns left);
             llabels = map (suffixed overlap (fst sfx)) (columns left);
             rlabels = map (suffixed overlap (snd sfx)) (filter (\<lambda>c. c \<noteq> on) (columns right))
         in if \<not> distinct llabels \<or> \<not> distinct rlabels then Inl MergeError
            else Inr \<lparr>columns = llabels @ rlabels,
                      rows = concat (map (\<lambda>l. map (join_rows overlap on sfx l)
                                (filter (\<lambda>r. cell_of r on = cell_of l on) (rows right)))
                              (rows left))\<rparr>))"

section \<open>BIXIDataFetcher.get_station_information, get_station_status\<close>

text \<open>
  Lines 57 to 59 (and 64 to 66):
  \<open>if data and 'data' in data and 'stations' in data['data']\<close> builds the frame of
  \<open>data['data']['stations']\<close>, and anything else gives \<open>pd.DataFrame()\<close>.
\<close>

definition stations_frame :: "pandas_lib \<Rightarrow> pyval \<Rightarrow> py_exception + table" where
  "stations_frame lib data =
     (if \<not> truthy data then Inr empty_frame
      else
        (case py_in ''data'' data of
           Inl e \<Rightarrow> Inl e
         | Inr has_data \<Rightarrow>
             (if \<not> has_data then Inr empty_frame
              else
                (case py_item data ''data'' of
                   Inl e \<Rightarrow> Inl e
                 | Inr d \<Rightarrow>
                     (case py_in ''stations'' d of
                        Inl e \<Rightarrow> Inl e
                      | Inr has_stations \<Rightarrow>
                          (if \<not> has_stations then Inr empty_frame
                           else
                             (case py_item d ''stations'' of
                                Inl e \<Rightarrow> Inl e
                              | Inr s \<Rightarrow> DataFrame lib s)))))))"

text \<open>
  A payload without the station list: a JSON object without \<open>data\<close>, or whose
  \<open>data\<close> is an object without \<open>stations\<close>.
\<close>

definition stations_absent :: "pyval \<Rightarrow> bool" where
  "stations_absent data =
     (case data of
        PDict kvs \<Rightarrow>
          (case map_of kvs ''data'' of
             None \<Rightarrow> True
           | Some (PDict d) \<Rightarrow> map_of d ''stations'' = None
           | Some _ \<Rightarrow> False)
      | _ \<Rightarrow> False)"

definition get_station_information ::
  "pandas_lib \<Rightarrow> world \<Rightarrow> (py_exception + table) \<times> world" where
  "get_station_information lib w =
     (case fetch_feed ''station_information'' w of
        (Inl e, w1) \<Rightarrow> (Inl e, w1)
      | (Inr data, w1) \<Rightarrow> (stations_frame lib data, w1))"

definition get_station_status ::
  "pandas_lib \<Rightarrow> world \<Rightarrow> (py_exception + table) \<times> world" where
  "get_station_status lib w =
     (case fetch_feed ''station_status'' w of
        (Inl e, w1) \<Rightarrow> (Inl e, w1)
      | (Inr data, w1) \<Rightarrow> (stations_frame lib data, w1))"

section \<open>BIXIDataFetcher.get_combined_station_data\<close>

text \<open>
  Lines 91 to 94, the coordinate labels: two statements of one shape,
  \<open>if c not in df.columns and a in df.columns: df[c] = df[a]\<close>, first for
  \<open>lon\<close> and \<open>longitude\<close>, then for \<open>lat\<close> and \<open>latitude\<close>.
\<close>

definition copy_if_absent :: "string \<Rightarrow> string \<Rightarrow> table \<Rightarrow> table" where
  "copy_if_absent c a df =
     (if c \<notin> set (columns df) \<and> a \<in> set (columns df) then set_column c (column df a) df else df)"

definition normalize_coordinates :: "table \<Rightarrow> table" where
  "normalize_coordinates combined =
     copy_if_absent ''lat'' ''latitude'' (copy_if_absent ''lon'' ''longitude'' combined)"

text \<open>
  \<open>pd.to_numeric(series, errors='coerce')\<close> on one cell, before the column gets its
  dtype: a number is itself, a string is parsed, and whatever does not parse (a string
  that is no number, \<open>None\<close>, a list, a dictionary) is NaN.
\<close>

definition to_numeric_coerce :: "pandas_lib \<Rightarrow> pyval \<Rightarrow> number" where
  "to_numeric_coerce lib v =
     (case v of
        PNum n \<Rightarrow> n
      | PStr s \<Rightarrow> (case parse_number lib s of None \<Rightarrow> NaN | Some n \<Rightarrow> n)
      | _ \<Rightarrow> NaN)"

text \<open>The same cell in the column \<open>c\<close> that \<open>to_numeric\<close> returns: NaN stays NaN.\<close>

definition to_numeric_cell :: "pandas_lib \<Rightarrow> string \<Rightarrow> pyval \<Rightarrow> number" where
  "to_numeric_cell lib c v =
     (if to_numeric_coerce lib v = NaN then NaN else stored_as lib c (to_numeric_coerce lib v))"

text \<open>\<open>fillna(0)\<close> on a numeric column: NaN becomes 0.0.\<close>

definition fillna :: "number \<Rightarrow> number \<Rightarrow> number" where
  "fillna d n = (if n = NaN then d else n)"

text \<open>The number a count cell of column \<open>c\<close> holds after \<open>to_numeric\<close> and \<open>fillna(0)\<close>.\<close>

definition coerced_count :: "pandas_lib \<Rightarrow> string \<Rightarrow> pyval \<Rightarrow> number" where
  "coerced_count lib c v = fillna (Finite 0) (to_numeric_cell lib c v)"

text \<open>
  Reading a cell of a numeric column. The columns read this way were made numeric by
  lines 99 and 100 or computed from such, so every cell is a number; any other value
  would read as NaN.
\<close>

definition as_number :: "pyval \<Rightarrow> number" where
  "as_number v = (case v of PNum n \<Rightarrow> n | _ \<Rightarrow> NaN)"

text \<open>Addition of two numeric series, cell by cell.\<close>

definition series_add :: "pandas_lib \<Rightarrow> pyval list \<Rightarrow> pyval list \<Rightarrow> pyval list" where
  "series_add lib xs ys = map2 (\<lambda>x y. PNum (series_plus lib (as_number x) (as_number y))) xs ys"

text \<open>
  \<open>x > 0\<close> and \<open>x / y\<close> on the values of a row: a value that is not a number
  raises \<open>TypeError\<close>, and a divisor equal to zero raises \<open>ZeroDivisionError\<close>.
\<close>

definition py_gt_zero :: "pyval \<Rightarrow> py_exception + bool" where
  "py_gt_zero x = (case x of PNum a \<Rightarrow> Inr (positive a) | _ \<Rightarrow> Inl TypeError)"

definition py_truediv :: "pandas_lib \<Rightarrow> pyval \<Rightarrow> pyval \<Rightarrow> py_exception + pyval" where
  "py_truediv lib x y =
     (case (x, y) of
        (PNum a, PNum b) \<Rightarrow>
          if is_zero b then Inl ZeroDivisionError else Inr (PNum (scalar_div lib a b))
      | _ \<Rightarrow> Inl TypeError)"

text \<open>The lambda of lines 107 and 108.\<close>

definition utilization :: "pandas_lib \<Rightarrow> (string \<times> pyval) list \<Rightarrow> py_exception + pyval" where
  "utilization lib row =
     (case py_gt_zero (cell_of row ''total_capacity'') of
        Inl e \<Rightarrow> Inl e
      | Inr is_positive \<Rightarrow>
          if is_positive
          then py_truediv lib (cell_of row ''num_bikes_available'') (cell_of row ''total_capacity'')
          else Inr (PNum (Finite 0)))"

text \<open>\<open>df.apply(f, axis=1)\<close>: the first row on which \<open>f\<close> raises ends the call.\<close>

fun apply_rows ::
  "((string \<times> pyval) list \<Rightarrow> py_exception + pyval) \<Rightarrow> (string \<times> pyval) list list \<Rightarrow>
   py_exception + pyval list" where
  "apply_rows f [] = Inr []"
| "apply_rows f (r # rs) =
     (case f r of
        Inl e \<Rightarrow> Inl e
      | Inr v \<Rightarrow> (case apply_rows f rs of Inl e \<Rightarrow> Inl e | Inr vs \<Rightarrow> Inr (v # vs)))"

text \<open>Lines 97 to 110: the availability metrics.\<close>

definition availability_metrics :: "pandas_lib \<Rightarrow> table \<Rightarrow> py_exception + table" where
  "availability_metrics lib combined =
     (if ''num_bikes_available'' \<in> set (columns combined) \<and>
         ''num_docks_available'' \<in> set (columns combined)
      then
        (let c1 = set_column ''num_bikes_available''
                    (map (PNum \<circ> coerced_count lib ''num_bikes_available'')
                      (column combined ''num_bikes_available''))
                    combined;
             c2 = set_column ''num_docks_available''
                    (map (PNum \<circ> coerced_count lib ''num_docks_available'')
                      (column c1 ''num_docks_available''))
                    c1;
             c3 = set_column ''total_capacity''
                    (series_add lib (column c2 ''num_bikes_available'')
                      (column c2 ''num_docks_available''))
                    c2
         in case apply_rows (utilization lib) (rows c3) of
              Inl e \<Rightarrow> Inl e
            | Inr rates \<Rightarrow> Inr (set_column ''utilization_rate'' rates c3))
      else Inr combined)"

text \<open>
  The metrics block in closed form: the row and the labels it leaves when both count
  columns are present (shown equal to \<open>availability_metrics\<close> below).
\<close>

definition derived_row :: "pandas_lib \<Rightarrow> (string \<times> pyval) list \<Rightarrow> (string \<times> pyval) list" where
  "derived_row lib r =
     (let b = coerced_count lib ''num_bikes_available'' (cell_of r ''num_bikes_available'');
          d = coerced_count lib ''num_docks_available'' (cell_of r ''num_docks_available'');
          c = series_plus lib b d
      in AList.update ''utilization_rate''
           (PNum (if positive c then scalar_div lib b c else Finite 0))
           (AList.update ''total_capacity'' (PNum c)
             (AList.update ''num_docks_available'' (PNum d)
               (AList.update ''num_bikes_available'' (PNum b) r))))"

definition derived_columns :: "string list \<Rightarrow> string list" where
  "derived_columns cs =
     (let c3 = (if ''total_capacity'' \<in> set cs then cs else cs @ [''total_capacity''])
      in if ''utilization_rate'' \<in> set c3 then c3 else c3 @ [''utilization_rate''])"

text \<open>Lines 83 to 110: merge, normalise, derive.\<close>

definition build_combined :: "pandas_lib \<Rightarrow> table \<Rightarrow> table \<Rightarrow> py_exception + table" where
  "build_combined lib info_df status_df =
     (case merge_inner lib info_df status_df ''station_id'' (''_info'', ''_status'') of
        Inl e \<Rightarrow> Inl e
      | Inr merged \<Rightarrow> availability_metrics lib (normalize_coordinates merged))"

definition csv_path_at :: "string \<Rightarrow> string" where
  "csv_path_at timestamp = DATA_DIR @ ''/combined_stations_'' @ timestamp @ ''.csv''"

definition get_combined_station_data ::
  "pandas_lib \<Rightarrow> world \<Rightarrow> (py_exception + table) \<times> world" where
  "get_combined_station_data lib w =
     (case get_station_information lib w of
        (Inl e, w1) \<Rightarrow> (Inl e, w1)
      | (Inr info_df, w1) \<Rightarrow>
          (case get_station_status lib w1 of
             (Inl e, w2) \<Rightarrow> (Inl e, w2)
           | (Inr status_df, w2) \<Rightarrow>
               if frame_empty info_df \<or> frame_empty status_df
               then (Inr empty_frame, print MissingStationData w2)
               else
                 (case build_combined lib info_df status_df of
                    Inl e \<Rightarrow> (Inl e, w2)
                  | Inr combined \<Rightarrow>
                      (let (timestamp, w3) = now_strftime w2;
                           csv_path = csv_path_at timestamp
                       in case write_file csv_path (CsvFile combined) w3 of
                            Inl e \<Rightarrow> (Inl e, w3)
                          | Inr w4 \<Rightarrow> (Inr combined, print (SavedCombined csv_path) w4)))))"

section \<open>Example runs\<close>

text \<open>
  A library instance for the examples. Its number parser reads non-empty strings of
  decimal digits and the string "inf"; its columns store what was parsed; its sum is a
  logical or on two booleans, wraps around in int64 on two whole numbers and follows
  IEEE 754 on infinities and NaN; its quotient follows IEEE 754 on infinities and NaN;
  finite sums of other numbers and finite quotients are exact (this instance does not
  round to float64). It refuses to merge a key column of numbers with one of strings,
  and its constructor rejects everything but records.
\<close>

definition parse_digits :: "string \<Rightarrow> number option" where
  "parse_digits s =
     (if s = ''inf'' then Some PosInf
      else if s \<noteq> [] \<and> list_all (\<lambda>c. c \<in> set ''0123456789'') s
      then Some (Finite (of_nat (foldl (\<lambda>n c. 10 * n + (of_char c - 48)) 0 s)))
      else None)"

definition wrap_int64 :: "int \<Rightarrow> int" where
  "wrap_int64 i = (i + 2 ^ 63) mod 2 ^ 64 - 2 ^ 63"

definition is_whole :: "rat \<Rightarrow> bool" where
  "is_whole q = (q = of_int \<lfloor>q\<rfloor>)"

definition example_plus :: "number \<Rightarrow> number \<Rightarrow> number" where
  "example_plus x y =
     (case (x, y) of
        (NBool a, NBool b) \<Rightarrow> NBool (a \<or> b)
      | _ \<Rightarrow>
          (case (finite_value x, finite_value y) of
             (Some a, Some b) \<Rightarrow>
               if is_whole a \<and> is_whole b then Finite (of_int (wrap_int64 (\<lfloor>a\<rfloor> + \<lfloor>b\<rfloor>)))
               else Finite (a + b)
           | _ \<Rightarrow>
               if x = NaN \<or> y = NaN \<or> (x = PosInf \<and> y = NegInf) \<or> (x = NegInf \<and> y = PosInf)
               then NaN
               else if x = PosInf \<or> y = PosInf then PosInf
               else NegInf))"

definition example_div :: "number \<Rightarrow> number \<Rightarrow> number" where
  "example_div x y =
     (case (finite_value x, finite_value y) of
        (Some a, Some b) \<Rightarrow> Finite (a / b)
      | (Some a, None) \<Rightarrow> if y = NaN then NaN else Finite 0
      | (None, Some b) \<Rightarrow>
          if x = NaN then NaN else if (x = PosInf) = (0 < b) then PosInf else NegInf
      | (None, None) \<Rightarrow> NaN)"

definition is_plain_number :: "pyval \<Rightarrow> bool" where
  "is_plain_number v = (case v of PNum (NBool b) \<Rightarrow> False | PNum n \<Rightarrow> True | _ \<Rightarrow> False)"

definition is_str :: "pyval \<Rightarrow> bool" where
  "is_str v = (case v of PStr s \<Rightarrow> True | _ \<Rightarrow> False)"

definition numeric_keys :: "pyval list \<Rightarrow> bool" where
  "numeric_keys xs =
     (list_all (\<lambda>v. is_plain_number v \<or> v = PNone) xs \<and> list_ex is_plain_number xs)"

definition string_keys :: "pyval list \<Rightarrow> bool" where
  "string_keys xs = (list_all (\<lambda>v. is_str v \<or> v = PNone) xs \<and> list_ex is_str xs)"

definition example_keys_compatible :: "pyval list \<Rightarrow> pyval list \<Rightarrow> bool" where
  "example_keys_compatible l r =
     (\<not> (numeric_keys l \<and> string_keys r) \<and> \<not> (string_keys l \<and> numeric_keys r))"

definition example_lib :: pandas_lib where
  "example_lib =
     \<lparr>parse_number = parse_digits,
      stored_as = (\<lambda>c n. n),
      series_plus = example_plus,
      scalar_div = example_div,
      keys_compatible = example_keys_compatible,
      frame_of_other = (\<lambda>v. Inl (ValueError ''DataFrame constructor not properly called!''))\<rparr>"

definition example_clock :: "nat \<Rightarrow> string" where
  "example_clock n =
     (if n = 0 then ''20250101_120000''
      else if n = 1 then ''20250101_120001''
      else ''20250101_120002'')"

definition offline_world :: world where
  "offline_world =
     \<lparr>transport = (\<lambda>url. Inl Timeout), clock = example_clock, ticks = 0,
      writable = (\<lambda>p. True), requests_log = [], files = [], stdout = []\<rparr>"

text \<open>
  The example of the specification: one station, "42", in both feeds, with 3 bikes and
  7 docks.
\<close>

definition example_information :: pyval where
  "example_information =
     PDict [(''data'', PDict [(''stations'', PList
       [PDict [(''station_id'', PStr ''42''), (''name'', PStr ''Parc''),
               (''lon'', PNum (Finite (- 147 / 2))), (''lat'', PNum (Finite (91 / 2)))]])])]"

definition example_status :: pyval where
  "example_status =
     PDict [(''data'', PDict [(''stations'', PList
       [PDict [(''station_id'', PStr ''42''), (''num_bikes_available'', PNum (Finite 3)),
               (''num_docks_available'', PNum (Finite 7))]])])]"

definition example_transport :: "string \<Rightarrow> request_exception + pyval" where
  "example_transport url =
     (if url = ''https://gbfs.velobixi.com/gbfs/en/station_information.json''
      then Inr example_information
      else if url = ''https://gbfs.velobixi.com/gbfs/en/station_status.json''
      then Inr example_status
      else Inl (HTTPError 404))"

definition example_world :: world where
  "example_world =
     \<lparr>transport = example_transport, clock = example_clock, ticks = 0,
      writable = (\<lambda>p. True), requests_log = [], files = [], stdout = []\<rparr>"

text \<open>The same feeds, on a disk that takes the raw snapshots and refuses the merged one.\<close>

definition full_disk_world :: world where
  "full_disk_world =
     example_world\<lparr>writable := (\<lambda>p. p \<noteq> ''data/combined_stations_20250101_120002.csv'')\<rparr>"

text \<open>A server whose payloads carry no station list.\<close>

definition no_stations_world :: world where
  "no_stations_world = example_world\<lparr>transport := (\<lambda>url. Inr (PDict [(''data'', PDict [])]))\<rparr>"

text \<open>The merged table of the example, and its only row.\<close>

definition example_row :: "(string \<times> pyval) list" where
  "example_row =
     [(''station_id'', PStr ''42''), (''name'', PStr ''Parc''),
      (''lon'', PNum (Finite (- 147 / 2))), (''lat'', PNum (Finite (91 / 2))),
      (''num_bikes_available'', PNum (Finite 3)), (''num_docks_available'', PNum (Finite 7)),
      (''total_capacity'', PNum (Finite 10)), (''utilization_rate'', PNum (Finite (3 / 10)))]"

definition example_combined :: table where
  "example_combined =
     \<lparr>columns = [''station_id'', ''name'', ''lon'', ''lat'', ''num_bikes_available'',
                 ''num_docks_available'', ''total_capacity'', ''utilization_rate''],
      rows = [example_row]\<rparr>"

text \<open>The two frames of the example.\<close>

definition example_info_df :: table where
  "example_info_df =
     \<lparr>columns = [''station_id'', ''name'', ''lon'', ''lat''],
      rows = [[(''station_id'', PStr ''42''), (''name'', PStr ''Parc''),
               (''lon'', PNum (Finite (- 147 / 2))), (''lat'', PNum (Finite (91 / 2)))]]\<rparr>"

definition example_status_df :: table where
  "example_status_df =
     \<lparr>columns = [''station_id'', ''num_bikes_available'', ''num_docks_available''],
      rows = [[(''station_id'', PStr ''42''), (''num_bikes_available'', PNum (Finite 3)),
               (''num_docks_available'', PNum (Finite 7))]]\<rparr>"

text \<open>The worlds the two fetches of a run on the full disk leave behind.\<close>

definition full_disk_w1 :: world where
  "full_disk_w1 = snd (get_station_information example_lib full_disk_world)"

definition full_disk_w2 :: world where
  "full_disk_w2 = snd (get_station_status example_lib full_disk_w1)"

text \<open>A status frame whose bike count is the string "N/A", and its merge.\<close>

definition na_status_df :: table where
  "na_status_df =
     \<lparr>columns = [''station_id'', ''num_bikes_available'', ''num_docks_available''],
      rows = [[(''station_id'', PStr ''42''), (''num_bikes_available'', PStr ''N/A''),
               (''num_docks_available'', PNum (Finite 7))]]\<rparr>"

definition na_merged :: table where
  "na_merged =
     \<lparr>columns = [''station_id'', ''name'', ''lon'', ''lat'', ''num_bikes_available'',
                 ''num_docks_available''],
      rows = [[(''station_id'', PStr ''42''), (''name'', PStr ''Parc''),
               (''lon'', PNum (Finite (- 147 / 2))), (''lat'', PNum (Finite (91 / 2))),
               (''num_bikes_available'', PStr ''N/A''), (''num_docks_available'', PNum (Finite 7))]]\<rparr>"

text \<open>
  A status feed without dock counts, whose bike count is the string "N/A": the world
  that serves it, the frame built from it, the merge, and the worlds after the fetches.
\<close>

definition no_docks_status :: pyval where
  "no_docks_status =
     PDict [(''data'', PDict [(''stations'', PList
       [PDict [(''station_id'', PStr ''42''), (''num_bikes_available'', PStr ''N/A'')]])])]"

definition no_docks_world :: world where
  "no_docks_world =
     example_world\<lparr>transport :=
       (\<lambda>url. if url = ''https://gbfs.velobixi.com/gbfs/en/station_status.json''
              then Inr no_docks_status else example_transport url)\<rparr>"

definition no_docks_status_df :: table where
  "no_docks_status_df =
     \<lparr>columns = [''station_id'', ''num_bikes_available''],
      rows = [[(''station_id'', PStr ''42''), (''num_bikes_available'', PStr ''N/A'')]]\<rparr>"

definition no_docks_merged :: table where
  "no_docks_merged =
     \<lparr>columns = [''station_id'', ''name'', ''lon'', ''lat'', ''num_bikes_available''],
      rows = [[(''station_id'', PStr ''42''), (''name'', PStr ''Parc''),
               (''lon'', PNum (Finite (- 147 / 2))), (''lat'', PNum (Finite (91 / 2))),
               (''num_bikes_available'', PStr ''N/A'')]]\<rparr>"

definition no_docks_w1 :: world where
  "no_docks_w1 = snd (get_station_information example_lib no_docks_world)"

definition no_docks_w2 :: world where
  "no_docks_w2 = snd (get_station_status example_lib no_docks_w1)"

text \<open>A table whose coordinates come under the alternate names only.\<close>

definition alternate_table :: table where
  "alternate_table =
     \<lparr>columns = [''station_id'', ''longitude'', ''latitude''],
      rows = [[(''station_id'', PStr ''42''), (''longitude'', PNum (Finite (- 147 / 2))),
               (''latitude'', PNum (Finite (91 / 2)))]]\<rparr>"

text \<open>
  Feeds that share one station: the information feed lists stations 42 and 43, the
  status feed stations 42 and 44. Then a status feed that lists station 44 only, so that
  the two feeds share none.
\<close>

definition overlap_information :: pyval where
  "overlap_information =
     PDict [(''data'', PDict [(''stations'', PList
       [PDict [(''station_id'', PStr ''42''), (''name'', PStr ''Parc'')],
        PDict [(''station_id'', PStr ''43''), (''name'', PStr ''Quai'')]])])]"

definition overlap_status :: pyval where
  "overlap_status =
     PDict [(''data'', PDict [(''stations'', PList
       [PDict [(''station_id'', PStr ''42''), (''num_bikes_available'', PNum (Finite 3)),
               (''num_docks_available'', PNum (Finite 7))],
        PDict [(''station_id'', PStr ''44''), (''num_bikes_available'', PNum (Finite 1)),
               (''num_docks_available'', PNum (Finite 1))]])])]"

definition disjoint_status :: pyval where
  "disjoint_status =
     PDict [(''data'', PDict [(''stations'', PList
       [PDict [(''station_id'', PStr ''44''), (''num_bikes_available'', PNum (Finite 1)),
               (''num_docks_available'', PNum (Finite 1))]])])]"

definition serving :: "pyval \<Rightarrow> pyval \<Rightarrow> world" where
  "serving information status =
     example_world\<lparr>transport :=
       (\<lambda>url. if url = ''https://gbfs.velobixi.com/gbfs/en/station_information.json''
              then Inr information
              else if url = ''https://gbfs.velobixi.com/gbfs/en/station_status.json''
              then Inr status
              else Inl (HTTPError 404))\<rparr>"

definition overlap_world :: world where
  "overlap_world = serving overlap_information overlap_status"

definition disjoint_world :: world where
  "disjoint_world = serving overlap_information disjoint_status"

definition overlap_info_df :: table where
  "overlap_info_df =
     \<lparr>columns = [''station_id'', ''name''],
      rows = [[(''station_id'', PStr ''42''), (''name'', PStr ''Parc'')],
              [(''station_id'', PStr ''43''), (''name'', PStr ''Quai'')]]\<rparr>"

definition overlap_status_df :: table where
  "overlap_status_df =
     \<lparr>columns = [''station_id'', ''num_bikes_available'', ''num_docks_available''],
      rows = [[(''station_id'', PStr ''42''), (''num_bikes_available'', PNum (Finite 3)),
               (''num_docks_available'', PNum (Finite 7))],
              [(''station_id'', PStr ''44''), (''num_bikes_available'', PNum (Finite 1)),
               (''num_docks_available'', PNum (Finite 1))]]\<rparr>"

definition disjoint_status_df :: table where
  "disjoint_status_df =
     \<lparr>columns = [''station_id'', ''num_bikes_available'', ''num_docks_available''],
      rows = [[(''station_id'', PStr ''44''), (''num_bikes_available'', PNum (Finite 1)),
               (''num_docks_available'', PNum (Finite 1))]]\<rparr>"

definition overlap_w1 :: world where
  "overlap_w1 = snd (get_station_information example_lib overlap_world)"

definition overlap_w2 :: world where
  "overlap_w2 = snd (get_station_status example_lib overlap_w1)"

definition disjoint_w1 :: world where
  "disjoint_w1 = snd (get_station_information example_lib disjoint_world)"

definition disjoint_w2 :: world where
  "disjoint_w2 = snd (get_station_status example_lib disjoint_w1)"

text \<open>
  A status feed with an idle station: 42 has 3 bikes and 7 docks, 43 has none of
  either. With the information feed that lists 42 and 43, the merged table has a row of
  positive and a row of zero capacity.
\<close>

definition idle_status :: pyval where
  "idle_status =
     PDict [(''data'', PDict [(''stations'', PList
       [PDict [(''station_id'', PStr ''42''), (''num_bikes_available'', PNum (Finite 3)),
               (''num_docks_available'', PNum (Finite 7))],
        PDict [(''station_id'', PStr ''43''), (''num_bikes_available'', PNum (Finite 0)),
               (''num_docks_available'', PNum (Finite 0))]])])]"

definition idle_world :: world where
  "idle_world = serving overlap_information idle_status"

definition busy_row :: "(string \<times> pyval) list" where
  "busy_row =
     [(''station_id'', PStr ''42''), (''name'', PStr ''Parc''),
      (''num_bikes_available'', PNum (Finite 3)), (''num_docks_available'', PNum (Finite 7)),
      (''total_capacity'', PNum (Finite 10)), (''utilization_rate'', PNum (Finite (3 / 10)))]"

definition idle_row :: "(string \<times> pyval) list" where
  "idle_row =
     [(''station_id'', PStr ''43''), (''name'', PStr ''Quai''),
      (''num_bikes_available'', PNum (Finite 0)), (''num_docks_available'', PNum (Finite 0)),
      (''total_capacity'', PNum (Finite 0)), (''utilization_rate'', PNum (Finite 0))]"

definition idle_combined :: table where
  "idle_combined =
     \<lparr>columns = [''station_id'', ''name'', ''num_bikes_available'', ''num_docks_available'',
                 ''total_capacity'', ''utilization_rate''],
      rows = [busy_row, idle_row]\<rparr>"

text \<open>A status feed whose bike count is the string "inf", which the library reads as infinity.\<close>

definition inf_status :: pyval where
  "inf_status =
     PDict [(''data'', PDict [(''stations'', PList
       [PDict [(''station_id'', PStr ''42''), (''num_bikes_available'', PStr ''inf''),
               (''num_docks_available'', PNum (Finite 0))]])])]"

definition inf_world :: world where
  "inf_world = serving example_information inf_status"

definition inf_row :: "(string \<times> pyval) list" where
  "inf_row =
     [(''station_id'', PStr ''42''), (''name'', PStr ''Parc''),
      (''lon'', PNum (Finite (- 147 / 2))), (''lat'', PNum (Finite (91 / 2))),
      (''num_bikes_available'', PNum PosInf), (''num_docks_available'', PNum (Finite 0)),
      (''total_capacity'', PNum PosInf), (''utilization_rate'', PNum NaN)]"

definition inf_combined :: table where
  "inf_combined =
     \<lparr>columns = [''station_id'', ''name'', ''lon'', ''lat'', ''num_bikes_available'',
                 ''num_docks_available'', ''total_capacity'', ''utilization_rate''],
      rows = [inf_row]\<rparr>"

text \<open>A status feed whose entries carry no \<open>station_id\<close>.\<close>

definition keyless_status :: pyval where
  "keyless_status =
     PDict [(''data'', PDict [(''stations'', PList
       [PDict [(''num_bikes_available'', PNum (Finite 1)),
               (''num_docks_available'', PNum (Finite 1))]])])]"

definition keyless_world :: world where
  "keyless_world = serving overlap_information keyless_status"

definition keyless_status_df :: table where
  "keyless_status_df =
     \<lparr>columns = [''num_bikes_available'', ''num_docks_available''],
      rows = [[(''num_bikes_available'', PNum (Finite 1)),
               (''num_docks_available'', PNum (Finite 1))]]\<rparr>"

definition keyless_w1 :: world where
  "keyless_w1 = snd (get_station_information example_lib keyless_world)"

definition keyless_w2 :: world where
  "keyless_w2 = snd (get_station_status example_lib keyless_w1)"

section \<open>The feed retriever\<close>

text \<open>
  C9. A feed name that is not a key of \<open>BIXI_FEEDS\<close> makes \<open>fetch_feed\<close> raise
  before any network call: the exception is the \<open>ValueError\<close> "Unknown feed: <name>"
  (the configuration error of the specification), and the world, with its log of
  requests, is left as it was.
\<close>

theorem fetch_feed_unknown_feed:
  "feed_name \<notin> set (map fst BIXI_FEEDS) \<Longrightarrow>
   fetch_feed feed_name w = (Inl (ValueError (''Unknown feed: '' @ feed_name)), w) \<and>
   requests_log (snd (fetch_feed feed_name w)) = requests_log w"
proof -
  assume "feed_name \<notin> set (map fst BIXI_FEEDS)"
  then have "map_of BIXI_FEEDS feed_name = None"
    by (simp add: map_of_eq_None_iff)
  then show ?thesis by (simp add: fetch_feed_def)
qed

theorem fetch_feed_unknown_feed_witness:
  "''bike_lanes'' \<notin> set (map fst BIXI_FEEDS) \<and>
   fetch_feed ''bike_lanes'' offline_world =
     (Inl (ValueError ''Unknown feed: bike_lanes''), offline_world) \<and>
   requests_log (snd (fetch_feed ''bike_lanes'' offline_world)) = []"
proof -
  have h: "''bike_lanes'' \<notin> set (map fst BIXI_FEEDS)"
    by (simp add: BIXI_FEEDS_def)
  show ?thesis
    using h fetch_feed_unknown_feed [OF h, of offline_world] by (simp add: offline_world_def)
qed

text \<open>
  C4, as the code has it. When the request for a known feed ends in a
  \<open>RequestException\<close> (connection error, timeout after the 10 second bound, error
  status, undecodable body), \<open>fetch_feed\<close> does not raise: it issues the one request
  with timeout 10, prints the feed name with the exception, writes no file and returns
  \<open>None\<close>.
\<close>

theorem fetch_feed_request_exception:
  "map_of BIXI_FEEDS feed_name = Some p \<Longrightarrow> transport w (BIXI_GBFS_BASE_URL @ p) = Inl e \<Longrightarrow>
   fetch_feed feed_name w =
     (Inr PNone,
      w\<lparr>requests_log := requests_log w @ [(BIXI_GBFS_BASE_URL @ p, 10)],
        stdout := stdout w @ [ErrorFetching feed_name e]\<rparr>)"
  by (simp add: fetch_feed_def requests_get_def print_def)

text \<open>
  C4 as stated fails: with every request timing out, fetching the station status
  raises nothing.
\<close>

theorem fetch_feed_raises_counterexample:
  "\<not> (\<exists>e. fst (fetch_feed ''station_status'' offline_world) = Inl e)"
  by (simp add: fetch_feed_def requests_get_def print_def offline_world_def BIXI_FEEDS_def)

theorem fetch_feed_request_exception_witness:
  "map_of BIXI_FEEDS ''station_status'' = Some ''/en/station_status.json'' \<and>
   transport offline_world (BIXI_GBFS_BASE_URL @ ''/en/station_status.json'') = Inl Timeout \<and>
   fetch_feed ''station_status'' offline_world =
     (Inr PNone,
      offline_world\<lparr>requests_log := [(''https://gbfs.velobixi.com/gbfs/en/station_status.json'', 10)],
        stdout := [ErrorFetching ''station_status'' Timeout]\<rparr>)"
proof -
  have h1: "map_of BIXI_FEEDS ''station_status'' = Some ''/en/station_status.json''"
    by (simp add: BIXI_FEEDS_def)
  have h2: "transport offline_world (BIXI_GBFS_BASE_URL @ ''/en/station_status.json'') = Inl Timeout"
    by (simp add: offline_world_def)
  show ?thesis
    using h1 h2 fetch_feed_request_exception [OF h1 h2]
    by (simp add: offline_world_def BIXI_GBFS_BASE_URL_def)
qed

section \<open>The station table builders\<close>

lemma stations_frame_absent:
  "stations_absent data \<Longrightarrow> stations_frame lib data = Inr empty_frame"
  by (auto simp: stations_absent_def stations_frame_def py_in_def py_item_def truthy_def
        map_of_eq_None_iff split: pyval.splits option.splits)

lemma fetch_information_no_stations:
  "fst (fetch_feed ''station_information'' no_stations_world) = Inr (PDict [(''data'', PDict [])])"
  by (simp add: fetch_feed_def requests_get_def print_def no_stations_world_def
      example_world_def BIXI_FEEDS_def now_strftime_def write_file_def stations_count_def
      py_get_def py_len_def)

text \<open>
  C5, as the code has it. When the payload that \<open>fetch_feed\<close> hands to
  \<open>get_station_information\<close> or \<open>get_station_status\<close> is a JSON object without the
  station list (no \<open>data\<close>, or a \<open>data\<close> object without \<open>stations\<close>), the builder
  raises nothing and returns the empty table.
\<close>

theorem station_tables_without_station_list:
  "stations_absent data \<Longrightarrow>
   (fetch_feed ''station_information'' w = (Inr data, w1) \<longrightarrow>
      get_station_information lib w = (Inr empty_frame, w1)) \<and>
   (fetch_feed ''station_status'' w = (Inr data, w1) \<longrightarrow>
      get_station_status lib w = (Inr empty_frame, w1))"
  by (simp add: get_station_information_def get_station_status_def stations_frame_absent)

theorem station_tables_without_station_list_witness:
  "stations_absent (PDict [(''data'', PDict [])]) \<and>
   fst (fetch_feed ''station_information'' no_stations_world) = Inr (PDict [(''data'', PDict [])]) \<and>
   fst (get_station_information example_lib no_stations_world) = Inr empty_frame"
proof -
  let ?data = "PDict [(''data'', PDict [])]"
  let ?w1 = "snd (fetch_feed ''station_information'' no_stations_world)"
  have h: "stations_absent ?data"
    by (simp add: stations_absent_def)
  have f: "fetch_feed ''station_information'' no_stations_world = (Inr ?data, ?w1)"
    by (rule prod_eqI) (simp_all only: fst_conv snd_conv fetch_information_no_stations)
  have "get_station_information example_lib no_stations_world = (Inr empty_frame, ?w1)"
    using station_tables_without_station_list [OF h, of no_stations_world ?w1 example_lib] f
    by (rule_tac mp) (erule conjunct1, assumption)
  then have "fst (get_station_information example_lib no_stations_world) = Inr empty_frame"
    by (simp only: fst_conv)
  with h fetch_information_no_stations show ?thesis by (intro conjI)
qed

text \<open>
  C5 as stated fails: on a payload \<open>{"data": {}}\<close> the builder raises nothing.
\<close>

theorem station_table_raises_counterexample:
  "\<not> (\<exists>e. fst (get_station_information example_lib no_stations_world) = Inl e)"
proof -
  obtain r w1 where f: "fetch_feed ''station_information'' no_stations_world = (r, w1)"
    by (cases "fetch_feed ''station_information'' no_stations_world")
  with fetch_information_no_stations have "r = Inr (PDict [(''data'', PDict [])])"
    by simp
  with f have "fst (get_station_information example_lib no_stations_world) = Inr empty_frame"
    by (simp add: get_station_information_def stations_frame_absent stations_absent_def)
  then show ?thesis by simp
qed

section \<open>Tables: columns, coercion and the metrics block\<close>

lemma cell_of_update:
  "cell_of (AList.update c v r) k = (if k = c then v else cell_of r k)"
  by (simp add: cell_of_def update_conv')

lemma rows_set_column_map:
  "rows (set_column c (map f (rows t)) t) = map (\<lambda>r. AList.update c (f r) r) (rows t)"
  by (simp add: set_column_def zip_map2 zip_same_conv_map o_def)

lemma rows_set_column:
  "rows (set_column c vals t) = map2 (\<lambda>r v. AList.update c v r) (rows t) vals"
  by (simp add: set_column_def)

lemma columns_set_column:
  "columns (set_column c vals t) = (if c \<in> set (columns t) then columns t else columns t @ [c])"
  by (simp add: set_column_def)

lemma series_add_columns:
  "series_add lib (map f rs) (map g rs) =
     map (\<lambda>r. PNum (series_plus lib (as_number (f r)) (as_number (g r)))) rs"
  by (simp add: series_add_def zip_map_map zip_same_conv_map o_def)

lemma map2_maps: "map2 F (map h rs) (map g rs) = map (\<lambda>r. F (h r) (g r)) rs"
  by (simp add: zip_map_map zip_same_conv_map o_def)

lemma apply_rows_map:
  "(\<And>r. r \<in> set rs \<Longrightarrow> f (h r) = Inr (g r)) \<Longrightarrow> apply_rows f (map h rs) = Inr (map g rs)"
  by (induction rs) simp_all

lemma positive_not_zero: "positive n \<Longrightarrow> \<not> is_zero n"
  by (cases n) (auto simp: positive_def is_zero_def)


lemma utilization_derived:
  assumes "cell_of r ''total_capacity'' = PNum c" "cell_of r ''num_bikes_available'' = PNum b"
  shows "utilization lib r = Inr (PNum (if positive c then scalar_div lib b c else Finite 0))"
  using assms
  by (simp add: utilization_def py_gt_zero_def py_truediv_def positive_not_zero)

lemma availability_metrics_present:
  assumes "''num_bikes_available'' \<in> set (columns t)" "''num_docks_available'' \<in> set (columns t)"
  shows "availability_metrics lib t =
           Inr \<lparr>columns = derived_columns (columns t), rows = map (derived_row lib) (rows t)\<rparr>"
proof -
  let ?nb = "''num_bikes_available''" and ?nd = "''num_docks_available''"
  let ?tc = "''total_capacity''" and ?ur = "''utilization_rate''"
  let ?b = "\<lambda>r. coerced_count lib ?nb (cell_of r ?nb)"
  let ?d = "\<lambda>r. coerced_count lib ?nd (cell_of r ?nd)"
  let ?c = "\<lambda>r. series_plus lib (?b r) (?d r)"
  let ?u = "\<lambda>r. PNum (if positive (?c r) then scalar_div lib (?b r) (?c r) else Finite 0)"
  define c1 where "c1 = set_column ?nb (map (PNum \<circ> coerced_count lib ?nb) (column t ?nb)) t"
  define c2 where "c2 = set_column ?nd (map (PNum \<circ> coerced_count lib ?nd) (column c1 ?nd)) c1"
  define c3 where "c3 = set_column ?tc (series_add lib (column c2 ?nb) (column c2 ?nd)) c2"
  define r1 where "r1 = (\<lambda>r. AList.update ?nb (PNum (?b r)) r)"
  define r2 where "r2 = (\<lambda>r. AList.update ?nd (PNum (?d r)) (r1 r))"
  define r3 where "r3 = (\<lambda>r. AList.update ?tc (PNum (?c r)) (r2 r))"
  have rows1: "rows c1 = map r1 (rows t)"
    unfolding c1_def column_def map_map
    by (simp add: rows_set_column_map o_def r1_def)
  have rows2: "rows c2 = map r2 (rows t)"
    unfolding c2_def column_def map_map rows_set_column rows1
    by (simp add: map2_maps o_def r2_def r1_def cell_of_update)
  have rows3: "rows c3 = map r3 (rows t)"
    unfolding c3_def column_def rows_set_column rows2 map_map series_add_columns
    by (simp add: map2_maps o_def r3_def r2_def r1_def cell_of_update as_number_def)
  have cols3: "columns c3 = (if ?tc \<in> set (columns t) then columns t else columns t @ [?tc])"
    using assms by (simp add: c3_def c2_def c1_def columns_set_column)
  have rates: "apply_rows (utilization lib) (rows c3) = Inr (map ?u (rows t))"
    unfolding rows3
    by (rule apply_rows_map, rule utilization_derived)
       (simp_all add: r3_def r2_def r1_def cell_of_update)
  have "availability_metrics lib t = Inr (set_column ?ur (map ?u (rows t)) c3)"
    using assms rates
    by (simp add: availability_metrics_def Let_def c1_def [symmetric] c2_def [symmetric]
        c3_def [symmetric])
  moreover have "set_column ?ur (map ?u (rows t)) c3 =
      \<lparr>columns = derived_columns (columns t), rows = map (derived_row lib) (rows t)\<rparr>"
    by (simp add: set_column_def rows3 cols3 map2_maps derived_columns_def derived_row_def
        Let_def r3_def r2_def r1_def)
  ultimately show ?thesis by simp
qed

lemma derived_row_cells:
  "cell_of (derived_row lib r) ''num_bikes_available'' =
     PNum (coerced_count lib ''num_bikes_available'' (cell_of r ''num_bikes_available''))"
  "cell_of (derived_row lib r) ''num_docks_available'' =
     PNum (coerced_count lib ''num_docks_available'' (cell_of r ''num_docks_available''))"
  "cell_of (derived_row lib r) ''total_capacity'' =
     PNum (series_plus lib
            (coerced_count lib ''num_bikes_available'' (cell_of r ''num_bikes_available''))
            (coerced_count lib ''num_docks_available'' (cell_of r ''num_docks_available'')))"
  "cell_of (derived_row lib r) ''utilization_rate'' =
     PNum (if positive (series_plus lib
                 (coerced_count lib ''num_bikes_available'' (cell_of r ''num_bikes_available''))
                 (coerced_count lib ''num_docks_available'' (cell_of r ''num_docks_available'')))
           then scalar_div lib
                  (coerced_count lib ''num_bikes_available'' (cell_of r ''num_bikes_available''))
                  (series_plus lib
                    (coerced_count lib ''num_bikes_available'' (cell_of r ''num_bikes_available''))
                    (coerced_count lib ''num_docks_available'' (cell_of r ''num_docks_available'')))
           else Finite 0)"
  by (simp_all add: derived_row_def Let_def cell_of_update)

lemma availability_metrics_absent:
  "''num_bikes_available'' \<notin> set (columns t) \<or> ''num_docks_available'' \<notin> set (columns t) \<Longrightarrow>
   availability_metrics lib t = Inr t"
  by (auto simp: availability_metrics_def)

lemma availability_metrics_row:
  assumes "availability_metrics lib m = Inr t"
    and "''num_bikes_available'' \<in> set (columns t)" "''num_docks_available'' \<in> set (columns t)"
    and "r \<in> set (rows t)"
  shows "\<exists>r0 \<in> set (rows m). r = derived_row lib r0"
proof (cases "''num_bikes_available'' \<in> set (columns m) \<and> ''num_docks_available'' \<in> set (columns m)")
  case True
  then have "t = \<lparr>columns = derived_columns (columns m), rows = map (derived_row lib) (rows m)\<rparr>"
    using assms(1) by (simp add: availability_metrics_present)
  with assms(4) show ?thesis by auto
next
  case False
  then have "t = m"
    using assms(1) availability_metrics_absent [of m lib] by auto
  with False assms(2,3) show ?thesis by simp
qed

lemma get_combined_station_data_cases:
  assumes "get_combined_station_data lib w = (Inr t, w')"
  shows "t = empty_frame \<or>
         (\<exists>info_df status_df w1 w2.
            get_station_information lib w = (Inr info_df, w1) \<and>
            get_station_status lib w1 = (Inr status_df, w2) \<and>
            build_combined lib info_df status_df = Inr t)"
  using assms
  by (auto simp: get_combined_station_data_def Let_def now_strftime_def
      split: prod.splits sum.splits if_splits)

lemma build_combined_cases:
  assumes "build_combined lib info_df status_df = Inr t"
  shows "\<exists>m. merge_inner lib info_df status_df ''station_id'' (''_info'', ''_status'') = Inr m \<and>
             availability_metrics lib (normalize_coordinates m) = Inr t"
  using assms by (auto simp: build_combined_def split: sum.splits)

lemma get_combined_station_data_built:
  assumes "get_station_information lib w = (Inr info_df, w1)"
    and "get_station_status lib w1 = (Inr status_df, w2)"
    and "\<not> frame_empty info_df" "\<not> frame_empty status_df"
    and "build_combined lib info_df status_df = Inr combined"
  shows "get_combined_station_data lib w =
     (let path = csv_path_at (clock w2 (ticks w2)) in
      if writable w2 path
      then (Inr combined,
            w2\<lparr>ticks := Suc (ticks w2), files := files w2 @ [(path, CsvFile combined)],
               stdout := stdout w2 @ [SavedCombined path]\<rparr>)
      else (Inl (OSError path), w2\<lparr>ticks := Suc (ticks w2)\<rparr>))"
  using assms
  by (simp add: get_combined_station_data_def Let_def now_strftime_def write_file_def print_def)

lemma set_column_of_column:
  "set_column c (column t k) t =
     \<lparr>columns = (if c \<in> set (columns t) then columns t else columns t @ [c]),
      rows = map (\<lambda>r. AList.update c (cell_of r k) r) (rows t)\<rparr>"
  unfolding column_def set_column_def by (simp only: map2_maps [of _ "\<lambda>r. r", simplified])

lemma copy_if_absent_closed:
  "copy_if_absent c a t =
     (if c \<notin> set (columns t) \<and> a \<in> set (columns t)
      then \<lparr>columns = columns t @ [c], rows = map (\<lambda>r. AList.update c (cell_of r a) r) (rows t)\<rparr>
      else t)"
  by (simp add: copy_if_absent_def set_column_of_column)

lemma columns_copy_if_absent:
  "k \<in> set (columns (copy_if_absent c a t)) \<longleftrightarrow>
     k \<in> set (columns t) \<or> (k = c \<and> a \<in> set (columns t))"
  by (auto simp: copy_if_absent_closed)

lemma column_copy_if_absent:
  "column (copy_if_absent c a t) k =
     (if k = c \<and> c \<notin> set (columns t) \<and> a \<in> set (columns t) then column t a else column t k)"
  by (simp add: copy_if_absent_closed column_def o_def cell_of_update)

lemma copy_if_absent_rows:
  "\<exists>f. rows (copy_if_absent c a t) = map f (rows t) \<and>
       (\<forall>r k. k \<noteq> c \<longrightarrow> cell_of (f r) k = cell_of r k)"
proof (cases "c \<notin> set (columns t) \<and> a \<in> set (columns t)")
  case True
  then have "rows (copy_if_absent c a t) = map (\<lambda>r. AList.update c (cell_of r a) r) (rows t)"
    by (simp add: copy_if_absent_closed)
  moreover have "\<forall>r k. k \<noteq> c \<longrightarrow> cell_of (AList.update c (cell_of r a) r) k = cell_of r k"
    by (simp add: cell_of_update)
  ultimately show ?thesis by blast
next
  case False
  then have "copy_if_absent c a t = t"
    by (auto simp: copy_if_absent_def)
  then have "rows (copy_if_absent c a t) = map (\<lambda>r. r) (rows t)"
    by simp
  then show ?thesis by blast
qed

lemma copy_if_absent_fixed:
  "c \<in> set (columns t) \<or> a \<notin> set (columns t) \<Longrightarrow> copy_if_absent c a t = t"
  by (auto simp: copy_if_absent_def)

lemma normalize_coordinates_rows:
  "\<exists>f. rows (normalize_coordinates m) = map f (rows m) \<and>
       (\<forall>r k. k \<noteq> ''lon'' \<longrightarrow> k \<noteq> ''lat'' \<longrightarrow> cell_of (f r) k = cell_of r k)"
proof -
  let ?m1 = "copy_if_absent ''lon'' ''longitude'' m"
  obtain f where f: "rows ?m1 = map f (rows m)" "\<And>r k. k \<noteq> ''lon'' \<Longrightarrow> cell_of (f r) k = cell_of r k"
    using copy_if_absent_rows [of "''lon''" "''longitude''" m] by blast
  obtain g where g: "rows (copy_if_absent ''lat'' ''latitude'' ?m1) = map g (rows ?m1)"
      "\<And>r k. k \<noteq> ''lat'' \<Longrightarrow> cell_of (g r) k = cell_of r k"
    using copy_if_absent_rows [of "''lat''" "''latitude''" ?m1] by blast
  have "rows (normalize_coordinates m) = map (g \<circ> f) (rows m)"
    by (simp add: normalize_coordinates_def f(1) g(1))
  moreover have "\<forall>r k. k \<noteq> ''lon'' \<longrightarrow> k \<noteq> ''lat'' \<longrightarrow> cell_of ((g \<circ> f) r) k = cell_of r k"
    by (simp add: f(2) g(2))
  ultimately show ?thesis by blast
qed

lemma normalize_coordinates_columns:
  "k \<noteq> ''lon'' \<Longrightarrow> k \<noteq> ''lat'' \<Longrightarrow>
   k \<in> set (columns (normalize_coordinates m)) \<longleftrightarrow> k \<in> set (columns m)"
  by (simp add: normalize_coordinates_def columns_copy_if_absent)

lemma normalize_coordinates_idem:
  "normalize_coordinates (normalize_coordinates t) = normalize_coordinates t"
proof -
  let ?n = "normalize_coordinates t"
  have "''lon'' \<in> set (columns ?n) \<or> ''longitude'' \<notin> set (columns ?n)"
    by (auto simp: normalize_coordinates_def columns_copy_if_absent)
  then have 1: "copy_if_absent ''lon'' ''longitude'' ?n = ?n"
    by (rule copy_if_absent_fixed)
  have "''lat'' \<in> set (columns ?n) \<or> ''latitude'' \<notin> set (columns ?n)"
    by (auto simp: normalize_coordinates_def columns_copy_if_absent)
  then have 2: "copy_if_absent ''lat'' ''latitude'' ?n = ?n"
    by (rule copy_if_absent_fixed)
  show ?thesis
    by (subst (1) normalize_coordinates_def) (simp only: 1 2)
qed

lemma normalize_coordinates_lon:
  "column (normalize_coordinates t) ''lon'' =
     (if ''lon'' \<notin> set (columns t) \<and> ''longitude'' \<in> set (columns t)
      then column t ''longitude'' else column t ''lon'')"
  by (simp add: normalize_coordinates_def column_copy_if_absent)

lemma normalize_coordinates_lat:
  "column (normalize_coordinates t) ''lat'' =
     (if ''lat'' \<notin> set (columns t) \<and> ''latitude'' \<in> set (columns t)
      then column t ''latitude'' else column t ''lat'')"
  by (simp add: normalize_coordinates_def column_copy_if_absent columns_copy_if_absent)

lemma normalize_coordinates_has_lon:
  "''lon'' \<in> set (columns (normalize_coordinates t)) \<longleftrightarrow>
     ''lon'' \<in> set (columns t) \<or> ''longitude'' \<in> set (columns t)"
  by (simp add: normalize_coordinates_def columns_copy_if_absent)

lemma normalize_coordinates_has_lat:
  "''lat'' \<in> set (columns (normalize_coordinates t)) \<longleftrightarrow>
     ''lat'' \<in> set (columns t) \<or> ''latitude'' \<in> set (columns t)"
  by (simp add: normalize_coordinates_def columns_copy_if_absent)

section \<open>The merged table\<close>

lemmas eval_defs =
  get_combined_station_data_def get_station_information_def get_station_status_def
  fetch_feed_def requests_get_def print_def BIXI_FEEDS_def BIXI_GBFS_BASE_URL_def DATA_DIR_def
  now_strftime_def write_file_def stations_count_def py_get_def py_len_def
  stations_frame_def py_in_def py_item_def truthy_def DataFrame_def
  build_combined_def merge_inner_def join_rows_def suffixed_def cell_of_def
  normalize_coordinates_def copy_if_absent_def availability_metrics_def set_column_def column_def
  to_numeric_coerce_def to_numeric_cell_def coerced_count_def fillna_def as_number_def
  series_add_def utilization_def py_gt_zero_def py_truediv_def is_zero_def positive_def
  finite_value_def example_lib_def parse_digits_def example_plus_def example_div_def
  wrap_int64_def is_whole_def example_keys_compatible_def numeric_keys_def string_keys_def
  is_plain_number_def is_str_def
  csv_path_at_def frame_empty_def empty_frame_def

lemma example_run:
  "fst (get_combined_station_data example_lib example_world) = Inr example_combined"
  by (simp add: eval_defs example_world_def example_transport_def example_information_def
      example_status_def example_clock_def example_combined_def example_row_def Let_def)

lemma example_run_pair:
  "\<exists>w'. get_combined_station_data example_lib example_world = (Inr example_combined, w')"
proof -
  obtain r w' where "get_combined_station_data example_lib example_world = (r, w')"
    by (cases "get_combined_station_data example_lib example_world")
  with example_run show ?thesis by simp
qed

lemmas example_defs =
  example_lib_def example_world_def example_transport_def example_information_def
  example_status_def example_clock_def full_disk_world_def no_docks_world_def
  no_docks_status_def

lemma pair_of_fst: "fst p = a \<Longrightarrow> snd p = b \<Longrightarrow> p = (a, b)"
  by auto

lemma example_build:
  "build_combined example_lib example_info_df example_status_df = Inr example_combined"
  by (simp add: eval_defs example_defs example_info_df_def example_status_df_def
      example_combined_def example_row_def Let_def)

text \<open>
  The arithmetic of the example library: an int64 sum that wraps around, the logical
  or of two booleans, and infinity by infinity.
\<close>

lemma example_arithmetic:
  "series_plus example_lib (Finite 9223372036854775807) (Finite 1) =
     Finite (- 9223372036854775808)"
  "series_plus example_lib (NBool True) (NBool True) = NBool True"
  "scalar_div example_lib PosInf PosInf = NaN"
  by (simp_all add: example_lib_def example_plus_def example_div_def finite_value_def
      is_whole_def wrap_int64_def)

text \<open>
  Every row of a returned table that carries both count columns is a row of the
  metrics block.
\<close>

lemma combined_row_derived:
  assumes "get_combined_station_data lib w = (Inr t, w')"
    and "''num_bikes_available'' \<in> set (columns t)" "''num_docks_available'' \<in> set (columns t)"
    and "r \<in> set (rows t)"
  shows "\<exists>r0. r = derived_row lib r0"
proof -
  from assms(1) have "t = empty_frame \<or>
         (\<exists>info_df status_df w1 w2.
            get_station_information lib w = (Inr info_df, w1) \<and>
            get_station_status lib w1 = (Inr status_df, w2) \<and>
            build_combined lib info_df status_df = Inr t)"
    by (rule get_combined_station_data_cases)
  moreover have "t \<noteq> empty_frame"
    using assms(4) by (auto simp: empty_frame_def)
  ultimately obtain info_df status_df where "build_combined lib info_df status_df = Inr t"
    by blast
  then obtain m where "availability_metrics lib (normalize_coordinates m) = Inr t"
    using build_combined_cases by blast
  then show ?thesis
    using availability_metrics_row assms(2,3,4) by blast
qed

lemma idle_run:
  "\<exists>w'. get_combined_station_data example_lib idle_world = (Inr idle_combined, w')"
proof -
  have "fst (get_combined_station_data example_lib idle_world) = Inr idle_combined"
    by (simp add: eval_defs example_defs serving_def idle_world_def overlap_information_def
        idle_status_def idle_combined_def busy_row_def idle_row_def Let_def)
  then show ?thesis
    by (metis prod.collapse)
qed



lemma positive_finite_value:
  "finite_value n = Some q \<Longrightarrow> positive n \<longleftrightarrow> 0 < q"
  by (cases n) (auto simp: finite_value_def positive_def split: if_splits)

text \<open>
  C3, as the code has it. In every row of the returned table whose bike and dock counts
  are finite and non-negative, whose \<open>total_capacity\<close> is their exact sum (the addition
  neither wrapped around nor overflowed) and whose quotient is the exact quotient rounded
  by a monotone rounding that keeps 0 and 1 (as the float64 division rounds), the
  utilization rate is a finite number between 0 and 1.
\<close>

theorem utilization_rate_bounds:
  assumes "get_combined_station_data lib w = (Inr t, w')"
    and "''num_bikes_available'' \<in> set (columns t)" "''num_docks_available'' \<in> set (columns t)"
    and "r \<in> set (rows t)"
    and "cell_of r ''num_bikes_available'' = PNum x" "cell_of r ''num_docks_available'' = PNum z"
    and "cell_of r ''total_capacity'' = PNum y"
    and "finite_value x = Some b" "finite_value z = Some d" "finite_value y = Some (b + d)"
    and "0 \<le> b" "0 \<le> d"
    and "mono rnd" "rnd 0 = 0" "rnd 1 = 1"
    and "0 < b + d \<longrightarrow> scalar_div lib x y = Finite (rnd (b / (b + d)))"
  shows "\<exists>u. cell_of r ''utilization_rate'' = PNum (Finite u) \<and> 0 \<le> u \<and> u \<le> 1"
proof -
  obtain r0 where r: "r = derived_row lib r0"
    using combined_row_derived [OF assms(1-4)] by blast
  have x: "coerced_count lib ''num_bikes_available'' (cell_of r0 ''num_bikes_available'') = x"
    and y: "series_plus lib
             (coerced_count lib ''num_bikes_available'' (cell_of r0 ''num_bikes_available''))
             (coerced_count lib ''num_docks_available'' (cell_of r0 ''num_docks_available'')) = y"
    using assms(5,7) by (simp_all add: r derived_row_cells)
  have rate: "cell_of r ''utilization_rate'' =
                PNum (if positive y then scalar_div lib x y else Finite 0)"
    by (simp add: r derived_row_cells x y [unfolded x])
  have pos: "positive y \<longleftrightarrow> 0 < b + d"
    using assms(10) by (rule positive_finite_value)
  show ?thesis
  proof (cases "0 < b + d")
    case True
    have "0 \<le> b / (b + d)" "b / (b + d) \<le> 1"
      using True assms(11,12) by (simp_all add: divide_le_eq_1_pos)
    then have "rnd 0 \<le> rnd (b / (b + d))" "rnd (b / (b + d)) \<le> rnd 1"
      using assms(13) by (auto dest: monoD)
    then have "0 \<le> rnd (b / (b + d))" "rnd (b / (b + d)) \<le> 1"
      using assms(14,15) by simp_all
    moreover have "cell_of r ''utilization_rate'' = PNum (Finite (rnd (b / (b + d))))"
      using rate pos True assms(16) by simp
    ultimately show ?thesis by blast
  next
    case False
    then have "cell_of r ''utilization_rate'' = PNum (Finite 0)"
      using rate pos by simp
    then show ?thesis by simp
  qed
qed

theorem utilization_rate_bounds_witness:
  "fst (get_combined_station_data example_lib idle_world) = Inr idle_combined \<and>
   busy_row \<in> set (rows idle_combined) \<and>
   cell_of busy_row ''num_bikes_available'' = PNum (Finite 3) \<and>
   cell_of busy_row ''num_docks_available'' = PNum (Finite 7) \<and>
   cell_of busy_row ''total_capacity'' = PNum (Finite 10) \<and>
   finite_value (Finite 10) = Some (3 + 7) \<and>
   mono (\<lambda>q::rat. q) \<and>
   scalar_div example_lib (Finite 3) (Finite 10) = Finite (3 / (3 + 7)) \<and>
   (\<exists>u. cell_of busy_row ''utilization_rate'' = PNum (Finite u) \<and> 0 \<le> u \<and> u \<le> 1)"
proof -
  obtain w' where run: "get_combined_station_data example_lib idle_world = (Inr idle_combined, w')"
    using idle_run by blast
  have c1: "''num_bikes_available'' \<in> set (columns idle_combined)"
    and c2: "''num_docks_available'' \<in> set (columns idle_combined)"
    and c3: "busy_row \<in> set (rows idle_combined)"
    by (simp_all add: idle_combined_def)
  have nb: "cell_of busy_row ''num_bikes_available'' = PNum (Finite 3)"
    and nd: "cell_of busy_row ''num_docks_available'' = PNum (Finite 7)"
    and tc: "cell_of busy_row ''total_capacity'' = PNum (Finite 10)"
    by (simp_all add: busy_row_def cell_of_def)
  have fv: "finite_value (Finite 3) = Some 3" "finite_value (Finite 7) = Some 7"
      "finite_value (Finite 10) = Some (3 + 7)"
    by (simp_all add: finite_value_def)
  have m: "mono (\<lambda>q::rat. q)"
    by (simp add: mono_def)
  have q: "scalar_div example_lib (Finite 3) (Finite 10) = Finite (3 / (3 + 7))"
    by (simp add: example_lib_def example_div_def finite_value_def)
  have nn: "(0::rat) \<le> 3" "(0::rat) \<le> 7"
    by simp_all
  have fx: "(\<lambda>q::rat. q) 0 = 0" "(\<lambda>q::rat. q) 1 = 1"
    by simp_all
  have dv: "(0::rat) < 3 + 7 \<longrightarrow>
            scalar_div example_lib (Finite 3) (Finite 10) = Finite ((\<lambda>q::rat. q) (3 / (3 + 7)))"
    using q by simp
  have "\<exists>u. cell_of busy_row ''utilization_rate'' = PNum (Finite u) \<and> 0 \<le> u \<and> u \<le> 1"
    by (rule utilization_rate_bounds [OF run c1 c2 c3 nb nd tc fv nn m fx dv])
  moreover have "fst (get_combined_station_data example_lib idle_world) = Inr idle_combined"
    using run by simp
  ultimately show ?thesis
    using c3 nb nd tc fv(3) m q by (intro conjI)
qed

text \<open>
  C3 as stated fails: a bike count that the library reads as infinity is non-negative,
  the total is infinite and positive, and the rate is infinity by infinity, NaN, which
  is no number between 0 and 1.
\<close>

theorem utilization_rate_bounds_counterexample:
  "fst (get_combined_station_data example_lib inf_world) = Inr inf_combined \<and>
   rows inf_combined = [inf_row] \<and>
   cell_of inf_row ''num_bikes_available'' = PNum PosInf \<and>
   positive PosInf \<and>
   cell_of inf_row ''num_docks_available'' = PNum (Finite 0) \<and>
   cell_of inf_row ''utilization_rate'' = PNum NaN \<and>
   finite_value NaN = None"
  by (simp add: eval_defs example_defs serving_def inf_world_def inf_status_def
      inf_combined_def inf_row_def Let_def)

lemma coerced_count_unparsable:
  "to_numeric_coerce lib v = NaN \<Longrightarrow> coerced_count lib c v = Finite 0"
  by (simp add: coerced_count_def to_numeric_cell_def fillna_def)

lemma na_merge:
  "merge_inner example_lib example_info_df na_status_df ''station_id'' (''_info'', ''_status'') = Inr na_merged"
  by (simp add: eval_defs example_info_df_def na_status_df_def na_merged_def)

text \<open>
  C7, as the code has it. When the merged table carries both count columns, the merge
  and the derivation complete without an exception, the table keeps its rows, and a
  count that \<open>to_numeric\<close> cannot read as a number is 0 in the result.
\<close>

theorem unparsable_counts_become_zero:
  assumes "merge_inner lib info_df status_df ''station_id'' (''_info'', ''_status'') = Inr merged"
    and "''num_bikes_available'' \<in> set (columns merged)"
    and "''num_docks_available'' \<in> set (columns merged)"
  shows "\<exists>t. build_combined lib info_df status_df = Inr t \<and>
             length (rows t) = length (rows merged) \<and>
             (\<forall>i < length (rows merged).
                (to_numeric_coerce lib (cell_of (rows merged ! i) ''num_bikes_available'') = NaN \<longrightarrow>
                   cell_of (rows t ! i) ''num_bikes_available'' = PNum (Finite 0)) \<and>
                (to_numeric_coerce lib (cell_of (rows merged ! i) ''num_docks_available'') = NaN \<longrightarrow>
                   cell_of (rows t ! i) ''num_docks_available'' = PNum (Finite 0)))"
proof -
  let ?n = "normalize_coordinates merged"
  let ?t = "\<lparr>columns = derived_columns (columns ?n), rows = map (derived_row lib) (rows ?n)\<rparr>"
  obtain f where f: "rows ?n = map f (rows merged)"
    and keep: "\<And>r k. k \<noteq> ''lon'' \<Longrightarrow> k \<noteq> ''lat'' \<Longrightarrow> cell_of (f r) k = cell_of r k"
    using normalize_coordinates_rows [of merged] by blast
  have "availability_metrics lib ?n = Inr ?t"
    using assms(2,3) by (intro availability_metrics_present) (simp_all add: normalize_coordinates_columns)
  then have "build_combined lib info_df status_df = Inr ?t"
    using assms(1) by (simp add: build_combined_def)
  moreover have "length (rows ?t) = length (rows merged)"
    by (simp add: f)
  moreover have "\<forall>i < length (rows merged).
      (to_numeric_coerce lib (cell_of (rows merged ! i) ''num_bikes_available'') = NaN \<longrightarrow>
         cell_of (rows ?t ! i) ''num_bikes_available'' = PNum (Finite 0)) \<and>
      (to_numeric_coerce lib (cell_of (rows merged ! i) ''num_docks_available'') = NaN \<longrightarrow>
         cell_of (rows ?t ! i) ''num_docks_available'' = PNum (Finite 0))"
    by (simp add: f derived_row_cells keep coerced_count_unparsable)
  ultimately show ?thesis by blast
qed

theorem unparsable_counts_become_zero_witness:
  "merge_inner example_lib example_info_df na_status_df ''station_id'' (''_info'', ''_status'') = Inr na_merged \<and>
   cell_of (rows na_merged ! 0) ''num_bikes_available'' = PStr ''N/A'' \<and>
   to_numeric_coerce example_lib (PStr ''N/A'') = NaN \<and>
   (\<exists>t. build_combined example_lib example_info_df na_status_df = Inr t \<and>
        cell_of (rows t ! 0) ''num_bikes_available'' = PNum (Finite 0))"
proof -
  have c: "''num_bikes_available'' \<in> set (columns na_merged)"
      "''num_docks_available'' \<in> set (columns na_merged)"
    by (simp_all add: na_merged_def)
  have cell: "cell_of (rows na_merged ! 0) ''num_bikes_available'' = PStr ''N/A''"
    by (simp add: na_merged_def cell_of_def)
  have un: "to_numeric_coerce example_lib (PStr ''N/A'') = NaN"
    by (simp add: to_numeric_coerce_def example_lib_def parse_digits_def)
  have len: "0 < length (rows na_merged)"
    by (simp add: na_merged_def)
  obtain t where t: "build_combined example_lib example_info_df na_status_df = Inr t"
    and z: "\<forall>i < length (rows na_merged).
      (to_numeric_coerce example_lib (cell_of (rows na_merged ! i) ''num_bikes_available'') = NaN \<longrightarrow>
         cell_of (rows t ! i) ''num_bikes_available'' = PNum (Finite 0)) \<and>
      (to_numeric_coerce example_lib (cell_of (rows na_merged ! i) ''num_docks_available'') = NaN \<longrightarrow>
         cell_of (rows t ! i) ''num_docks_available'' = PNum (Finite 0))"
    using unparsable_counts_become_zero [OF na_merge c] by blast
  from z len cell un have "cell_of (rows t ! 0) ''num_bikes_available'' = PNum (Finite 0)"
    by simp
  with t na_merge cell un show ?thesis by blast
qed

text \<open>
  C7 as stated fails: when the status feed has no dock counts, line 97 skips the
  coercion, and the unparsable bike count "N/A" is returned as it came.
\<close>

theorem unparsable_count_kept_counterexample:
  "fst (get_combined_station_data example_lib no_docks_world) = Inr no_docks_merged \<and>
   to_numeric_coerce example_lib (PStr ''N/A'') = NaN \<and>
   cell_of (rows no_docks_merged ! 0) ''num_bikes_available'' = PStr ''N/A'' \<and>
   cell_of (rows no_docks_merged ! 0) ''num_bikes_available'' \<noteq> PNum (Finite 0)"
  by (simp add: eval_defs example_defs Let_def no_docks_merged_def)

section \<open>Coordinate labels\<close>

text \<open>
  C8. The normalisation leaves a canonical column that is present as it is, fills
  an absent one with the values of the alternate column when that is present, leaves
  it absent when neither is present, and applied twice gives the table it gives
  applied once.
\<close>

theorem normalize_coordinates_spec:
  "(''lon'' \<in> set (columns t) \<longrightarrow>
      column (normalize_coordinates t) ''lon'' = column t ''lon'') \<and>
   (''lon'' \<notin> set (columns t) \<and> ''longitude'' \<in> set (columns t) \<longrightarrow>
      ''lon'' \<in> set (columns (normalize_coordinates t)) \<and>
      column (normalize_coordinates t) ''lon'' = column t ''longitude'') \<and>
   (''lon'' \<notin> set (columns t) \<and> ''longitude'' \<notin> set (columns t) \<longrightarrow>
      ''lon'' \<notin> set (columns (normalize_coordinates t))) \<and>
   (''lat'' \<in> set (columns t) \<longrightarrow>
      column (normalize_coordinates t) ''lat'' = column t ''lat'') \<and>
   (''lat'' \<notin> set (columns t) \<and> ''latitude'' \<in> set (columns t) \<longrightarrow>
      ''lat'' \<in> set (columns (normalize_coordinates t)) \<and>
      column (normalize_coordinates t) ''lat'' = column t ''latitude'') \<and>
   (''lat'' \<notin> set (columns t) \<and> ''latitude'' \<notin> set (columns t) \<longrightarrow>
      ''lat'' \<notin> set (columns (normalize_coordinates t))) \<and>
   normalize_coordinates (normalize_coordinates t) = normalize_coordinates t"
  by (simp only: normalize_coordinates_lon normalize_coordinates_lat normalize_coordinates_has_lon
      normalize_coordinates_has_lat normalize_coordinates_idem) simp

theorem normalize_coordinates_spec_witness:
  "''lon'' \<notin> set (columns alternate_table) \<and> ''longitude'' \<in> set (columns alternate_table) \<and>
   ''lon'' \<in> set (columns (normalize_coordinates alternate_table)) \<and>
   column (normalize_coordinates alternate_table) ''lon'' = [PNum (Finite (- 147 / 2))] \<and>
   ''lat'' \<in> set (columns (normalize_coordinates alternate_table)) \<and>
   column (normalize_coordinates alternate_table) ''lat'' = [PNum (Finite (91 / 2))] \<and>
   normalize_coordinates (normalize_coordinates alternate_table) =
     normalize_coordinates alternate_table"
proof -
  have h: "''lon'' \<notin> set (columns alternate_table)" "''longitude'' \<in> set (columns alternate_table)"
      "''lat'' \<notin> set (columns alternate_table)" "''latitude'' \<in> set (columns alternate_table)"
    by (simp_all add: alternate_table_def)
  have v: "column alternate_table ''longitude'' = [PNum (Finite (- 147 / 2))]"
      "column alternate_table ''latitude'' = [PNum (Finite (91 / 2))]"
    by (simp_all add: alternate_table_def column_def cell_of_def)
  from normalize_coordinates_spec [of alternate_table] h v show ?thesis
    by simp
qed

section \<open>Persistence\<close>

lemma full_disk_information:
  "get_station_information example_lib full_disk_world = (Inr example_info_df, full_disk_w1)"
  by (rule pair_of_fst) (simp_all add: eval_defs example_defs example_info_df_def full_disk_w1_def)

lemma full_disk_status:
  "get_station_status example_lib full_disk_w1 = (Inr example_status_df, full_disk_w2)"
  by (rule pair_of_fst)
     (simp_all add: eval_defs example_defs example_status_df_def full_disk_w1_def full_disk_w2_def)

lemma full_disk_w2_facts:
  "ticks full_disk_w2 = 2" "clock full_disk_w2 = example_clock"
  "writable full_disk_w2 = (\<lambda>p. p \<noteq> ''data/combined_stations_20250101_120002.csv'')"
  by (simp_all add: eval_defs example_defs full_disk_w1_def full_disk_w2_def)

text \<open>
  C6, as the code has it. After both frames are built non-empty and merged, a failed
  write of the snapshot is not absorbed: the \<open>OSError\<close> of the write leaves
  \<open>get_combined_station_data\<close>, no table is returned and nothing more is printed.
  The merged table is returned when the write succeeds.
\<close>

theorem persistence_failure_propagates:
  assumes "get_station_information lib w = (Inr info_df, w1)"
    and "get_station_status lib w1 = (Inr status_df, w2)"
    and "\<not> frame_empty info_df" "\<not> frame_empty status_df"
    and "build_combined lib info_df status_df = Inr combined"
  shows "(\<not> writable w2 (csv_path_at (clock w2 (ticks w2))) \<longrightarrow>
            get_combined_station_data lib w =
              (Inl (OSError (csv_path_at (clock w2 (ticks w2)))), w2\<lparr>ticks := Suc (ticks w2)\<rparr>)) \<and>
         (writable w2 (csv_path_at (clock w2 (ticks w2))) \<longrightarrow>
            fst (get_combined_station_data lib w) = Inr combined)"
  by (simp add: get_combined_station_data_built [OF assms] Let_def)

theorem persistence_failure_propagates_witness:
  "get_station_information example_lib full_disk_world = (Inr example_info_df, full_disk_w1) \<and>
   get_station_status example_lib full_disk_w1 = (Inr example_status_df, full_disk_w2) \<and>
   build_combined example_lib example_info_df example_status_df = Inr example_combined \<and>
   \<not> writable full_disk_w2 ''data/combined_stations_20250101_120002.csv'' \<and>
   fst (get_combined_station_data example_lib full_disk_world) =
     Inl (OSError ''data/combined_stations_20250101_120002.csv'')"
proof -
  have ne: "\<not> frame_empty example_info_df" "\<not> frame_empty example_status_df"
    by (simp_all add: frame_empty_def example_info_df_def example_status_df_def)
  have path: "csv_path_at (clock full_disk_w2 (ticks full_disk_w2)) =
                ''data/combined_stations_20250101_120002.csv''"
    by (simp add: full_disk_w2_facts csv_path_at_def DATA_DIR_def example_clock_def)
  have nw: "\<not> writable full_disk_w2 ''data/combined_stations_20250101_120002.csv''"
    by (simp add: full_disk_w2_facts)
  have "fst (get_combined_station_data example_lib full_disk_world) =
          Inl (OSError ''data/combined_stations_20250101_120002.csv'')"
    using persistence_failure_propagates
            [OF full_disk_information full_disk_status ne example_build] nw
    by (simp add: path)
  with full_disk_information full_disk_status example_build nw show ?thesis
    by (intro conjI)
qed

text \<open>
  C6 as stated fails: on a disk that refuses the merged snapshot, no table is returned.
\<close>

theorem persistence_failure_counterexample:
  "\<not> (\<exists>t. fst (get_combined_station_data example_lib full_disk_world) = Inr t)"
proof -
  have "fst (get_combined_station_data example_lib full_disk_world) =
          Inl (OSError ''data/combined_stations_20250101_120002.csv'')"
    by (simp add: eval_defs example_defs Let_def)
  then show ?thesis by simp
qed

section \<open>The guard of the metrics block\<close>

lemma no_docks_information:
  "get_station_information example_lib no_docks_world = (Inr example_info_df, no_docks_w1)"
  by (rule pair_of_fst) (simp_all add: eval_defs example_defs example_info_df_def no_docks_w1_def)

lemma no_docks_status_frame:
  "get_station_status example_lib no_docks_w1 = (Inr no_docks_status_df, no_docks_w2)"
  by (rule pair_of_fst)
     (simp_all add: eval_defs example_defs no_docks_status_df_def no_docks_w1_def no_docks_w2_def
        Let_def)

lemma no_docks_w2_facts:
  "ticks no_docks_w2 = 2" "clock no_docks_w2 = example_clock"
  "writable no_docks_w2 = (\<lambda>p. True)"
  by (simp_all add: eval_defs example_defs no_docks_w1_def no_docks_w2_def Let_def)

lemma no_docks_merge:
  "merge_inner example_lib example_info_df no_docks_status_df ''station_id'' (''_info'', ''_status'') =
     Inr no_docks_merged"
  by (simp add: eval_defs example_info_df_def no_docks_status_df_def no_docks_merged_def)

text \<open>
  C10. When both frames are built non-empty, the merge succeeds and the snapshot can be
  written: if the merged table lacks one of the two count columns,
  \<open>get_combined_station_data\<close> returns it (with its coordinates normalised) and
  derives nothing; if it has both, the returned table has the columns
  \<open>total_capacity\<close> and \<open>utilization_rate\<close>.
\<close>

theorem metrics_only_with_both_counts:
  assumes "get_station_information lib w = (Inr info_df, w1)"
    and "get_station_status lib w1 = (Inr status_df, w2)"
    and "\<not> frame_empty info_df" "\<not> frame_empty status_df"
    and "merge_inner lib info_df status_df ''station_id'' (''_info'', ''_status'') = Inr merged"
    and "writable w2 (csv_path_at (clock w2 (ticks w2)))"
  shows "(''num_bikes_available'' \<notin> set (columns merged) \<or>
          ''num_docks_available'' \<notin> set (columns merged) \<longrightarrow>
            fst (get_combined_station_data lib w) = Inr (normalize_coordinates merged)) \<and>
         (''num_bikes_available'' \<in> set (columns merged) \<and>
          ''num_docks_available'' \<in> set (columns merged) \<longrightarrow>
            (\<exists>t. fst (get_combined_station_data lib w) = Inr t \<and>
                 ''total_capacity'' \<in> set (columns t) \<and>
                 ''utilization_rate'' \<in> set (columns t)))"
proof (intro conjI impI)
  let ?n = "normalize_coordinates merged"
  assume "''num_bikes_available'' \<notin> set (columns merged) \<or>
          ''num_docks_available'' \<notin> set (columns merged)"
  then have "availability_metrics lib ?n = Inr ?n"
    by (intro availability_metrics_absent) (simp add: normalize_coordinates_columns)
  then have "build_combined lib info_df status_df = Inr ?n"
    using assms(5) by (simp add: build_combined_def)
  from get_combined_station_data_built [OF assms(1-4) this] assms(6)
  show "fst (get_combined_station_data lib w) = Inr ?n"
    by (simp add: Let_def)
next
  let ?n = "normalize_coordinates merged"
  let ?t = "\<lparr>columns = derived_columns (columns ?n), rows = map (derived_row lib) (rows ?n)\<rparr>"
  assume "''num_bikes_available'' \<in> set (columns merged) \<and>
          ''num_docks_available'' \<in> set (columns merged)"
  then have "availability_metrics lib ?n = Inr ?t"
    by (intro availability_metrics_present) (simp_all add: normalize_coordinates_columns)
  then have "build_combined lib info_df status_df = Inr ?t"
    using assms(5) by (simp add: build_combined_def)
  from get_combined_station_data_built [OF assms(1-4) this] assms(6)
  have "fst (get_combined_station_data lib w) = Inr ?t"
    by (simp add: Let_def)
  moreover have "''total_capacity'' \<in> set (columns ?t)" "''utilization_rate'' \<in> set (columns ?t)"
    by (simp_all add: derived_columns_def Let_def)
  ultimately show "\<exists>t. fst (get_combined_station_data lib w) = Inr t \<and>
                 ''total_capacity'' \<in> set (columns t) \<and>
                 ''utilization_rate'' \<in> set (columns t)"
    by blast
qed

theorem metrics_only_with_both_counts_witness:
  "get_station_information example_lib no_docks_world = (Inr example_info_df, no_docks_w1) \<and>
   get_station_status example_lib no_docks_w1 = (Inr no_docks_status_df, no_docks_w2) \<and>
   merge_inner example_lib example_info_df no_docks_status_df ''station_id'' (''_info'', ''_status'') =
     Inr no_docks_merged \<and>
   ''num_docks_available'' \<notin> set (columns no_docks_merged) \<and>
   fst (get_combined_station_data example_lib no_docks_world) = Inr no_docks_merged \<and>
   ''utilization_rate'' \<notin> set (columns no_docks_merged)"
proof -
  have ne: "\<not> frame_empty example_info_df" "\<not> frame_empty no_docks_status_df"
    by (simp_all add: frame_empty_def example_info_df_def no_docks_status_df_def)
  have wr: "writable no_docks_w2 (csv_path_at (clock no_docks_w2 (ticks no_docks_w2)))"
    by (simp add: no_docks_w2_facts)
  have nd: "''num_docks_available'' \<notin> set (columns no_docks_merged)"
    and ur: "''utilization_rate'' \<notin> set (columns no_docks_merged)"
    by (simp_all add: no_docks_merged_def)
  have n: "normalize_coordinates no_docks_merged = no_docks_merged"
    by (simp add: normalize_coordinates_def copy_if_absent_def no_docks_merged_def)
  have "fst (get_combined_station_data example_lib no_docks_world) =
          Inr (normalize_coordinates no_docks_merged)"
    using metrics_only_with_both_counts
            [OF no_docks_information no_docks_status_frame ne no_docks_merge wr] nd
    by blast
  with n no_docks_information no_docks_status_frame no_docks_merge nd ur show ?thesis
    by simp
qed

section \<open>The join\<close>

lemma not_suffixed_station_id:
  "k @ ''_info'' \<noteq> ''station_id''" "k @ ''_status'' \<noteq> ''station_id''"
proof -
  show "k @ ''_info'' \<noteq> ''station_id''"
  proof
    assume "k @ ''_info'' = ''station_id''"
    then have "rev (k @ ''_info'') = rev ''station_id''" by (rule arg_cong)
    then show False by simp
  qed
  show "k @ ''_status'' \<noteq> ''station_id''"
  proof
    assume "k @ ''_status'' = ''station_id''"
    then have "rev (k @ ''_status'') = rev ''station_id''" by (rule arg_cong)
    then show False by simp
  qed
qed

lemma map_of_renamed:
  assumes "f a = a" and "\<And>k. k \<noteq> a \<Longrightarrow> f k \<noteq> a"
  shows "map_of (map (\<lambda>(k, v). (f k, v)) l) a = map_of l a"
proof (induction l)
  case Nil
  show ?case by simp
next
  case (Cons x l)
  obtain k v where x: "x = (k, v)" by (cases x)
  show ?case
  proof (cases "k = a")
    case True
    then show ?thesis by (simp add: x assms(1))
  next
    case False
    with assms(2) have "f k \<noteq> a" by blast
    with False Cons show ?thesis by (simp add: x)
  qed
qed

lemma map_of_renamed_filtered:
  assumes "\<And>k. k \<noteq> a \<Longrightarrow> g k \<noteq> a"
  shows "map_of (map (\<lambda>(k, v). (g k, v)) (filter (\<lambda>kv. fst kv \<noteq> a) r)) a = None"
proof (induction r)
  case Nil
  show ?case by simp
next
  case (Cons x r)
  obtain k v where x: "x = (k, v)" by (cases x)
  show ?case
  proof (cases "k = a")
    case True
    with Cons show ?thesis by (simp add: x)
  next
    case False
    with assms have "g k \<noteq> a" by blast
    with False Cons show ?thesis by (simp add: x)
  qed
qed

lemma suffixed_station_id:
  assumes "''station_id'' \<notin> set overlap"
  shows "suffixed overlap ''_info'' ''station_id'' = ''station_id''"
    and "k \<noteq> ''station_id'' \<Longrightarrow> suffixed overlap ''_info'' k \<noteq> ''station_id''"
    and "k \<noteq> ''station_id'' \<Longrightarrow> suffixed overlap ''_status'' k \<noteq> ''station_id''"
  using assms not_suffixed_station_id [of k] by (simp_all add: suffixed_def)

lemma join_rows_key:
  assumes "''station_id'' \<notin> set overlap"
  shows "cell_of (join_rows overlap ''station_id'' (''_info'', ''_status'') l r) ''station_id'' =
         cell_of l ''station_id''"
proof -
  have 1: "map_of (map (\<lambda>(k, v). (suffixed overlap ''_info'' k, v)) l) ''station_id'' =
           map_of l ''station_id''"
    by (rule map_of_renamed) (rule suffixed_station_id [OF assms])+
  have 2: "map_of (map (\<lambda>(k, v). (suffixed overlap ''_status'' k, v))
             (filter (\<lambda>kv. fst kv \<noteq> ''station_id'') r)) ''station_id'' = None"
    by (rule map_of_renamed_filtered) (rule suffixed_station_id [OF assms])
  show ?thesis
    unfolding cell_of_def join_rows_def fst_conv snd_conv map_of_append map_add_def 1 2
    by (simp split: option.splits)
qed

lemma rows_merge_inner:
  assumes "merge_inner lib left right on sfx = Inr m"
  shows "rows m =
     concat (map (\<lambda>l. map (join_rows (filter (\<lambda>c. c \<noteq> on \<and> c \<in> set (columns right)) (columns left)) on sfx l)
                        (filter (\<lambda>r. cell_of r on = cell_of l on) (rows right)))
                 (rows left))"
proof -
  let ?ov = "filter (\<lambda>c. c \<noteq> on \<and> c \<in> set (columns right)) (columns left)"
  let ?t = "\<lparr>columns = map (suffixed ?ov (fst sfx)) (columns left) @
                        map (suffixed ?ov (snd sfx)) (filter (\<lambda>c. c \<noteq> on) (columns right)),
             rows = concat (map (\<lambda>l. map (join_rows ?ov on sfx l)
                        (filter (\<lambda>r. cell_of r on = cell_of l on) (rows right)))
                      (rows left))\<rparr>"
  have "merge_inner lib left right on sfx = Inr ?t \<or> (\<exists>e. merge_inner lib left right on sfx = Inl e)"
    by (simp add: merge_inner_def Let_def)
  with assms have "m = ?t" by auto
  then show ?thesis by simp
qed

lemma merge_inner_rows:
  assumes "merge_inner lib left right on sfx = Inr m" and "x \<in> set (rows m)"
  shows "\<exists>l \<in> set (rows left). \<exists>r \<in> set (rows right).
           cell_of r on = cell_of l on \<and>
           x = join_rows (filter (\<lambda>c. c \<noteq> on \<and> c \<in> set (columns right)) (columns left)) on sfx l r"
  using assms(2) by (auto simp: rows_merge_inner [OF assms(1)])

lemma merge_inner_keys:
  assumes "merge_inner lib left right ''station_id'' (''_info'', ''_status'') = Inr m"
  shows "set (column m ''station_id'') \<subseteq>
         set (column left ''station_id'') \<inter> set (column right ''station_id'')"
proof
  fix v assume "v \<in> set (column m ''station_id'')"
  then obtain x where x: "x \<in> set (rows m)" "v = cell_of x ''station_id''"
    unfolding column_def set_map by blast
  let ?ov = "filter (\<lambda>c. c \<noteq> ''station_id'' \<and> c \<in> set (columns right)) (columns left)"
  obtain l r where lr: "l \<in> set (rows left)" "r \<in> set (rows right)"
      "cell_of r ''station_id'' = cell_of l ''station_id''"
      "x = join_rows ?ov ''station_id'' (''_info'', ''_status'') l r"
    using merge_inner_rows [OF assms x(1)] by blast
  have "''station_id'' \<notin> set ?ov" by simp
  then have "cell_of (join_rows ?ov ''station_id'' (''_info'', ''_status'') l r) ''station_id'' =
             cell_of l ''station_id''"
    by (rule join_rows_key)
  with x(2) lr(4) have v: "v = cell_of l ''station_id''" by simp
  have "v \<in> set (column left ''station_id'')"
    unfolding column_def set_map v using lr(1) by blast
  moreover have "v \<in> set (column right ''station_id'')"
    unfolding column_def set_map v lr(3) [symmetric] using lr(2) by blast
  ultimately show "v \<in> set (column left ''station_id'') \<inter> set (column right ''station_id'')"
    by blast
qed

lemma merge_inner_disjoint:
  assumes "merge_inner lib left right on sfx = Inr m"
    and "set (column left on) \<inter> set (column right on) = {}"
  shows "rows m = []"
proof -
  have "filter (\<lambda>r. cell_of r on = cell_of l on) (rows right) = []" if "l \<in> set (rows left)" for l
  proof -
    have "cell_of l on \<in> set (column left on)"
      unfolding column_def set_map using that by blast
    with assms(2) have "cell_of l on \<notin> set (column right on)" by blast
    then have "\<forall>r \<in> set (rows right). cell_of r on \<noteq> cell_of l on"
      unfolding column_def set_map by (metis imageI)
    then show ?thesis by (simp add: filter_empty_conv)
  qed
  then have "map (\<lambda>l. map (join_rows (filter (\<lambda>c. c \<noteq> on \<and> c \<in> set (columns right)) (columns left)) on sfx l)
                        (filter (\<lambda>r. cell_of r on = cell_of l on) (rows right))) (rows left) =
             map (\<lambda>l. []) (rows left)"
    by (intro map_cong) simp_all
  then show ?thesis
    unfolding rows_merge_inner [OF assms(1)] by simp
qed

lemma normalize_coordinates_key:
  "k \<noteq> ''lon'' \<Longrightarrow> k \<noteq> ''lat'' \<Longrightarrow> column (normalize_coordinates m) k = column m k"
proof -
  assume k: "k \<noteq> ''lon''" "k \<noteq> ''lat''"
  obtain f where "rows (normalize_coordinates m) = map f (rows m)"
    and "\<And>r k. k \<noteq> ''lon'' \<Longrightarrow> k \<noteq> ''lat'' \<Longrightarrow> cell_of (f r) k = cell_of r k"
    using normalize_coordinates_rows [of m] by blast
  with k show ?thesis by (simp add: column_def)
qed

lemma availability_metrics_total:
  "\<exists>t. availability_metrics lib n = Inr t \<and>
       column t ''station_id'' = column n ''station_id'' \<and> length (rows t) = length (rows n)"
proof (cases "''num_bikes_available'' \<in> set (columns n) \<and> ''num_docks_available'' \<in> set (columns n)")
  case True
  then have "availability_metrics lib n =
      Inr \<lparr>columns = derived_columns (columns n), rows = map (derived_row lib) (rows n)\<rparr>"
    by (simp add: availability_metrics_present)
  moreover have "cell_of (derived_row lib r) ''station_id'' = cell_of r ''station_id''" for r
    by (simp add: derived_row_def Let_def cell_of_update)
  ultimately show ?thesis by (simp add: column_def)
next
  case False
  then have "availability_metrics lib n = Inr n"
    by (intro availability_metrics_absent) simp
  then show ?thesis by simp
qed

lemma build_combined_keys:
  assumes "build_combined lib info_df status_df = Inr t"
  shows "set (column t ''station_id'') \<subseteq>
         set (column info_df ''station_id'') \<inter> set (column status_df ''station_id'')"
proof -
  obtain m where m: "merge_inner lib info_df status_df ''station_id'' (''_info'', ''_status'') = Inr m"
    and t: "availability_metrics lib (normalize_coordinates m) = Inr t"
    using build_combined_cases [OF assms] by blast
  have "column t ''station_id'' = column (normalize_coordinates m) ''station_id''"
    using availability_metrics_total [of lib "normalize_coordinates m"] t by auto
  also have "\<dots> = column m ''station_id''"
    by (simp add: normalize_coordinates_key)
  finally show ?thesis
    using merge_inner_keys [OF m] by simp
qed

lemma build_combined_disjoint:
  assumes "merge_inner lib info_df status_df ''station_id'' (''_info'', ''_status'') = Inr m"
    and "set (column info_df ''station_id'') \<inter> set (column status_df ''station_id'') = {}"
  shows "\<exists>t. build_combined lib info_df status_df = Inr t \<and> rows t = []"
proof -
  have "rows m = []"
    using merge_inner_disjoint [OF assms] .
  moreover obtain f where "rows (normalize_coordinates m) = map f (rows m)"
    using normalize_coordinates_rows [of m] by blast
  ultimately have "rows (normalize_coordinates m) = []" by simp
  then show ?thesis
    using availability_metrics_total [of lib "normalize_coordinates m"] assms(1)
    by (auto simp: build_combined_def)
qed

lemmas overlap_defs =
  serving_def overlap_world_def disjoint_world_def overlap_information_def overlap_status_def
  disjoint_status_def

lemma overlap_information_frame:
  "get_station_information example_lib overlap_world = (Inr overlap_info_df, overlap_w1)"
  by (rule pair_of_fst)
     (simp_all add: eval_defs example_defs overlap_defs overlap_info_df_def overlap_w1_def Let_def)

lemma overlap_status_frame:
  "get_station_status example_lib overlap_w1 = (Inr overlap_status_df, overlap_w2)"
  by (rule pair_of_fst)
     (simp_all add: eval_defs example_defs overlap_defs overlap_status_df_def overlap_w1_def
        overlap_w2_def Let_def)

lemma overlap_run:
  "\<exists>t w'. get_combined_station_data example_lib overlap_world = (Inr t, w') \<and>
          column t ''station_id'' = [PStr ''42'']"
proof -
  have "\<exists>t. fst (get_combined_station_data example_lib overlap_world) = Inr t \<and>
            column t ''station_id'' = [PStr ''42'']"
    by (simp add: eval_defs example_defs overlap_defs Let_def)
  then show ?thesis
    by (metis prod.collapse)
qed

lemma disjoint_information_frame:
  "get_station_information example_lib disjoint_world = (Inr overlap_info_df, disjoint_w1)"
  by (rule pair_of_fst)
     (simp_all add: eval_defs example_defs overlap_defs overlap_info_df_def disjoint_w1_def Let_def)

lemma disjoint_status_frame:
  "get_station_status example_lib disjoint_w1 = (Inr disjoint_status_df, disjoint_w2)"
  by (rule pair_of_fst)
     (simp_all add: eval_defs example_defs overlap_defs disjoint_status_df_def disjoint_w1_def
        disjoint_w2_def Let_def)

lemma disjoint_w2_facts:
  "writable disjoint_w2 = (\<lambda>p. True)"
  by (simp add: eval_defs example_defs overlap_defs disjoint_w1_def disjoint_w2_def Let_def)

text \<open>
  C2, as the code has it. The merge is an inner join on \<open>station_id\<close>: every
  identifier in a table that \<open>get_combined_station_data\<close> returns is an identifier of
  the information frame and of the status frame, so one present in only one feed never
  appears. When the two frames share no identifier, the join is defined (both frames
  have the key column, the library accepts the dtypes of the two key columns, and the
  suffixes make no label clash) and the snapshot can be written, the call returns a
  table without rows and raises nothing.
\<close>

theorem merge_is_inner_join:
  assumes "get_station_information lib w = (Inr info_df, w1)"
    and "get_station_status lib w1 = (Inr status_df, w2)"
  shows "(\<forall>t w'. get_combined_station_data lib w = (Inr t, w') \<longrightarrow>
            set (column t ''station_id'') \<subseteq>
              set (column info_df ''station_id'') \<inter> set (column status_df ''station_id'')) \<and>
         (set (column info_df ''station_id'') \<inter> set (column status_df ''station_id'') = {} \<longrightarrow>
          (\<exists>m. merge_inner lib info_df status_df ''station_id'' (''_info'', ''_status'') = Inr m) \<longrightarrow>
          writable w2 (csv_path_at (clock w2 (ticks w2))) \<longrightarrow>
            (\<exists>t. fst (get_combined_station_data lib w) = Inr t \<and> rows t = []))"
proof (intro conjI allI impI)
  fix t w'
  assume run: "get_combined_station_data lib w = (Inr t, w')"
  from get_combined_station_data_cases [OF run] assms
  have "t = empty_frame \<or> build_combined lib info_df status_df = Inr t"
    by auto
  then show "set (column t ''station_id'') \<subseteq>
               set (column info_df ''station_id'') \<inter> set (column status_df ''station_id'')"
  proof
    assume "t = empty_frame"
    then have "column t ''station_id'' = []"
      by (simp add: empty_frame_def column_def)
    then show ?thesis by simp
  next
    assume "build_combined lib info_df status_df = Inr t"
    then show ?thesis by (rule build_combined_keys)
  qed
next
  assume dis: "set (column info_df ''station_id'') \<inter> set (column status_df ''station_id'') = {}"
    and "\<exists>m. merge_inner lib info_df status_df ''station_id'' (''_info'', ''_status'') = Inr m"
    and wr: "writable w2 (csv_path_at (clock w2 (ticks w2)))"
  then obtain m where m: "merge_inner lib info_df status_df ''station_id'' (''_info'', ''_status'') = Inr m"
    by blast
  obtain t where t: "build_combined lib info_df status_df = Inr t" "rows t = []"
    using build_combined_disjoint [OF m dis] by blast
  show "\<exists>t. fst (get_combined_station_data lib w) = Inr t \<and> rows t = []"
  proof (cases "frame_empty info_df \<or> frame_empty status_df")
    case True
    then have "fst (get_combined_station_data lib w) = Inr empty_frame"
      using assms by (simp add: get_combined_station_data_def)
    then show ?thesis by (simp add: empty_frame_def)
  next
    case False
    then have "fst (get_combined_station_data lib w) = Inr t"
      using get_combined_station_data_built [OF assms _ _ t(1)] wr by (simp add: Let_def)
    with t(2) show ?thesis by blast
  qed
qed


theorem merge_is_inner_join_witness:
  "get_station_information example_lib overlap_world = (Inr overlap_info_df, overlap_w1) \<and>
   get_station_status example_lib overlap_w1 = (Inr overlap_status_df, overlap_w2) \<and>
   PStr ''43'' \<in> set (column overlap_info_df ''station_id'') \<and>
   PStr ''44'' \<in> set (column overlap_status_df ''station_id'') \<and>
   (\<exists>t. fst (get_combined_station_data example_lib overlap_world) = Inr t \<and>
        column t ''station_id'' = [PStr ''42''] \<and>
        set (column t ''station_id'') \<subseteq>
          set (column overlap_info_df ''station_id'') \<inter> set (column overlap_status_df ''station_id'')) \<and>
   get_station_information example_lib disjoint_world = (Inr overlap_info_df, disjoint_w1) \<and>
   get_station_status example_lib disjoint_w1 = (Inr disjoint_status_df, disjoint_w2) \<and>
   set (column overlap_info_df ''station_id'') \<inter> set (column disjoint_status_df ''station_id'') = {} \<and>
   (\<exists>t. fst (get_combined_station_data example_lib disjoint_world) = Inr t \<and> rows t = [])"
proof -
  obtain t w' where run: "get_combined_station_data example_lib overlap_world = (Inr t, w')"
    and ids: "column t ''station_id'' = [PStr ''42'']"
    using overlap_run by blast
  have "set (column t ''station_id'') \<subseteq>
          set (column overlap_info_df ''station_id'') \<inter> set (column overlap_status_df ''station_id'')"
    using merge_is_inner_join [OF overlap_information_frame overlap_status_frame] run by blast
  with run ids have a: "\<exists>t. fst (get_combined_station_data example_lib overlap_world) = Inr t \<and>
        column t ''station_id'' = [PStr ''42''] \<and>
        set (column t ''station_id'') \<subseteq>
          set (column overlap_info_df ''station_id'') \<inter> set (column overlap_status_df ''station_id'')"
    by (metis fst_conv)
  have only: "PStr ''43'' \<in> set (column overlap_info_df ''station_id'')"
      "PStr ''44'' \<in> set (column overlap_status_df ''station_id'')"
    by (simp_all add: column_def cell_of_def overlap_info_df_def overlap_status_df_def)
  have dis: "set (column overlap_info_df ''station_id'') \<inter>
             set (column disjoint_status_df ''station_id'') = {}"
    by (simp add: column_def cell_of_def overlap_info_df_def disjoint_status_df_def)
  have mg: "\<exists>m. merge_inner example_lib overlap_info_df disjoint_status_df ''station_id'' (''_info'', ''_status'') = Inr m"
    by (simp add: eval_defs overlap_info_df_def disjoint_status_df_def Let_def)
  have wr: "writable disjoint_w2 (csv_path_at (clock disjoint_w2 (ticks disjoint_w2)))"
    by (simp add: disjoint_w2_facts)
  have b: "\<exists>t. fst (get_combined_station_data example_lib disjoint_world) = Inr t \<and> rows t = []"
    using merge_is_inner_join [OF disjoint_information_frame disjoint_status_frame] dis mg wr
    by blast
  from overlap_information_frame overlap_status_frame only a disjoint_information_frame
    disjoint_status_frame dis b
  show ?thesis by (intro conjI)
qed

lemma keyless_information_frame:
  "get_station_information example_lib keyless_world = (Inr overlap_info_df, keyless_w1)"
  by (rule pair_of_fst)
     (simp_all add: eval_defs example_defs overlap_defs keyless_world_def keyless_status_def
        overlap_info_df_def keyless_w1_def Let_def)

lemma keyless_status_frame:
  "get_station_status example_lib keyless_w1 = (Inr keyless_status_df, keyless_w2)"
  by (rule pair_of_fst)
     (simp_all add: eval_defs example_defs overlap_defs keyless_world_def keyless_status_def
        keyless_status_df_def keyless_w1_def keyless_w2_def Let_def)

text \<open>
  C2 as stated fails in its second half: when the entries of the status feed carry no
  \<open>station_id\<close>, the two frames share no identifier, and the merge raises
  \<open>KeyError\<close> instead of giving an empty table.
\<close>

theorem empty_intersection_raises_counterexample:
  "get_station_information example_lib keyless_world = (Inr overlap_info_df, keyless_w1) \<and>
   get_station_status example_lib keyless_w1 = (Inr keyless_status_df, keyless_w2) \<and>
   set (column overlap_info_df ''station_id'') \<inter> set (column keyless_status_df ''station_id'') = {} \<and>
   fst (get_combined_station_data example_lib keyless_world) = Inl (KeyError ''station_id'')"
proof -
  have "set (column overlap_info_df ''station_id'') \<inter>
        set (column keyless_status_df ''station_id'') = {}"
    by (simp add: column_def cell_of_def overlap_info_df_def keyless_status_df_def)
  moreover have "fst (get_combined_station_data example_lib keyless_world) =
                   Inl (KeyError ''station_id'')"
    by (simp add: eval_defs example_defs overlap_defs keyless_world_def keyless_status_def Let_def)
  ultimately show ?thesis
    using keyless_information_frame keyless_status_frame by (intro conjI)
qed

end
